theory Spec2Isabelle
  imports Main "HOL-Library.Sublist" "HOL-Library.Product_Lexorder"
begin

unbundle bit_operations_syntax

section \<open>Python strings and small library functions\<close>

text \<open>
  A Python \<open>str\<close> is modelled as a \<open>string\<close> holding the UTF-8 bytes of the text.
  UTF-8 is self-synchronising, so the substring test \<open>a in b\<close> on code points and the
  one on bytes agree. The Korean literals of the source are written as byte lists; the
  comment of each constant gives its meaning.
\<close>

datatype py_error =
    IndexError
  | KeyError
  | AttributeError
  | TypeError
  | ValueError
  | OverflowError
  | UnicodeEncodeError
  | Win32Error int

text \<open>\<open>a in b\<close> on two strings.\<close>

fun py_in :: "string \<Rightarrow> string \<Rightarrow> bool" where
  "py_in kw [] = (kw = [])"
| "py_in kw (c # cs) = (prefix kw (c # cs) \<or> py_in kw cs)"

text \<open>\<open>str.lower()\<close>, on the ASCII letters (Hangul has no case).\<close>

definition lower_char :: "char \<Rightarrow> char" where
  "lower_char c =
     (case map_of (zip ''ABCDEFGHIJKLMNOPQRSTUVWXYZ'' ''abcdefghijklmnopqrstuvwxyz'') c of
        Some l \<Rightarrow> l
      | None \<Rightarrow> c)"

definition lower :: "string \<Rightarrow> string" where
  "lower s = map lower_char s"

text \<open>\<open>str.strip()\<close>: white space is taken to be the ASCII white space of Python.\<close>

definition is_space :: "char \<Rightarrow> bool" where
  "is_space c = ((of_char c :: nat) \<in> {9, 10, 11, 12, 13, 28, 29, 30, 31, 32})"

definition strip :: "string \<Rightarrow> string" where
  "strip s = rev (dropWhile is_space (rev (dropWhile is_space s)))"

text \<open>\<open>str(n)\<close> of an integer, in decimal.\<close>

fun digits_of :: "nat \<Rightarrow> string" where
  "digits_of n =
     (if n < 10 then [''0123456789'' ! n]
      else digits_of (n div 10) @ [''0123456789'' ! (n mod 10)])"

declare digits_of.simps [simp del]

definition str_of_int :: "int \<Rightarrow> string" where
  "str_of_int i = (if i < 0 then CHR ''-'' # digits_of (nat (- i)) else digits_of (nat i))"

text \<open>\<open>xs[:n]\<close>: a negative bound counts from the end.\<close>

definition slice_to :: "'a list \<Rightarrow> int \<Rightarrow> 'a list" where
  "slice_to xs n = (if n < 0 then take (nat (int (length xs) + n)) xs else take (nat n) xs)"

section \<open>Configuration\<close>

text \<open>
  The configuration is a dictionary of dictionaries read with \<open>.get(key, default)\<close>:
  an absent key is \<open>None\<close>, and the accessors below put the source's defaults in.
\<close>

record evt_conf =
  log_name :: "string option"
  max_events_to_read :: "int option"
  target_sources :: "string list option"
  target_event_ids :: "int list option"

record llm_conf =
  api_url :: "string option"
  model :: "string option"
  max_log_details_for_llm :: "int option"
  abnormal_keywords :: "string list option"
  check_threshold :: "int option"
  enabled :: "bool option"

record config =
  event_log :: "evt_conf option"
  llm :: "llm_conf option"

definition get_or :: "'a option \<Rightarrow> 'a \<Rightarrow> 'a" where
  "get_or v d = (case v of None \<Rightarrow> d | Some x \<Rightarrow> x)"

definition empty_evt_conf :: evt_conf where
  "empty_evt_conf =
     \<lparr>log_name = None, max_events_to_read = None, target_sources = None,
      target_event_ids = None\<rparr>"

definition empty_llm_conf :: llm_conf where
  "empty_llm_conf =
     \<lparr>api_url = None, model = None, max_log_details_for_llm = None,
      abnormal_keywords = None, check_threshold = None, enabled = None\<rparr>"

section \<open>The event log scan (monitor.py, analyze_event_logs)\<close>

text \<open>
  A record of the event log, as far as the scan reads it. \<open>TimeGenerated\<close> holds what
  the two \<open>Format\<close> calls give (local time, ISO time), \<open>None\<close> when \<open>Format\<close>
  raises; \<open>SafeFormatMessage\<close> is the formatted message, or \<open>Inl\<close> the text of the
  exception the call raises.
\<close>

record event =
  EventID :: int
  SourceName :: string
  TimeGenerated :: "(string \<times> string) option"
  SafeFormatMessage :: "string + string"

text \<open>The structured record of a match, a dictionary with six keys.\<close>

record matched_event =
  timestamp :: string
  source :: string
  event_id :: int
  message :: string
  llm_analysis :: string
  abnormal :: bool

text \<open>What one call of \<open>ReadEventLog\<close> does: it returns a batch or raises.\<close>

datatype read_result = Events "event list" | ReadRaises int

text \<open>
  The operating system: whether the Windows modules are loaded, whether the log opens,
  and what the k-th read returns.
\<close>

record evt_env =
  is_windows :: bool
  OpenEventLog :: "string \<Rightarrow> bool"
  ReadEventLog :: "nat \<Rightarrow> read_result"

text \<open>"time: " in Korean.\<close>

definition lbl_time :: string where
  "lbl_time = [CHR 0xEC, CHR 0x8B, CHR 0x9C, CHR 0xEA, CHR 0xB0, CHR 0x84] @ '': ''"

text \<open>", source: " in Korean.\<close>

definition lbl_source :: string where
  "lbl_source = '', '' @ [CHR 0xEC, CHR 0x86, CHR 0x8C, CHR 0xEC, CHR 0x8A, CHR 0xA4] @ '': ''"

definition lbl_id :: string where
  "lbl_id = '', ID: ''"

text \<open>", message: " in Korean.\<close>

definition lbl_message :: string where
  "lbl_message = '', '' @ [CHR 0xEB, CHR 0xA9, CHR 0x94, CHR 0xEC, CHR 0x8B, CHR 0x9C, CHR 0xEC, CHR 0xA7, CHR 0x80] @ '': ''"

text \<open>"format error: " in Korean.\<close>

definition lbl_format_error :: string where
  "lbl_format_error = [CHR 0xED, CHR 0x8F, CHR 0xAC, CHR 0xEB, CHR 0xA7, CHR 0xB7] @ '' '' @ [CHR 0xEC, CHR 0x98, CHR 0xA4, CHR 0xEB, CHR 0xA5, CHR 0x98] @ '': ''"

text \<open>Lines 218 to 225: the masked event ID and the two tests.\<close>

definition masked_id :: "event \<Rightarrow> int" where
  "masked_id ev = EventID ev AND 0xFFFF"

definition match_found :: "string list \<Rightarrow> int list \<Rightarrow> event \<Rightarrow> bool" where
  "match_found srcs ids ev =
     (let m1 = (if srcs \<noteq> [] \<and> SourceName ev \<in> set srcs then True else False);
          m2 = (if \<not> m1 \<and> ids \<noteq> [] \<and> masked_id ev \<in> set ids then True else m1)
      in m2)"

definition detail_line :: "string \<Rightarrow> string \<Rightarrow> int \<Rightarrow> string \<Rightarrow> string" where
  "detail_line t src i msg =
     lbl_time @ t @ lbl_source @ src @ lbl_id @ str_of_int i @ lbl_message @ msg"

definition new_record :: "string \<Rightarrow> string \<Rightarrow> int \<Rightarrow> string \<Rightarrow> matched_event" where
  "new_record iso_time src i msg =
     \<lparr>timestamp = iso_time, source = src, event_id = i, message = msg, llm_analysis = [],
      abnormal = False\<rparr>"

text \<open>
  The accumulators of the loop: \<open>event_count\<close>, \<open>matched_event_details\<close> and
  \<open>matched_events\<close>.
\<close>

type_synonym scan_acc = "int \<times> string list \<times> matched_event list"

text \<open>
  The body of the \<open>for\<close> loop (lines 217 to 266) on one record. The count is
  incremented before the \<open>try\<close>; a failure of \<open>SafeFormatMessage\<close> is handled by the
  inner \<open>except\<close>, which calls \<open>Format\<close> again: when \<open>Format\<close> raises, the
  exception leaves the loop.
\<close>

definition process_event ::
  "string list \<Rightarrow> int list \<Rightarrow> event \<Rightarrow> scan_acc \<Rightarrow> py_error + scan_acc" where
  "process_event srcs ids ev acc =
     (case acc of (event_count, details, events) \<Rightarrow>
        if match_found srcs ids ev then
          (case TimeGenerated ev of
             None \<Rightarrow> Inl ValueError
           | Some (event_time, event_iso_time) \<Rightarrow>
               (case SafeFormatMessage ev of
                  Inr msg \<Rightarrow>
                    Inr (event_count + 1,
                         details @ [detail_line event_time (SourceName ev) (masked_id ev) (strip msg)],
                         events @ [new_record event_iso_time (SourceName ev) (masked_id ev) (strip msg)])
                | Inl format_err \<Rightarrow>
                    Inr (event_count + 1,
                         details @ [detail_line event_time (SourceName ev) (masked_id ev)
                                      (''('' @ lbl_format_error @ format_err @ '')'')],
                         events @ [new_record event_iso_time (SourceName ev) (masked_id ev)
                                      (lbl_format_error @ format_err)])))
        else Inr acc)"

text \<open>\<open>for i in range(events_to_process_in_batch)\<close>, on the records it visits.\<close>

fun process_batch ::
  "string list \<Rightarrow> int list \<Rightarrow> event list \<Rightarrow> scan_acc \<Rightarrow> py_error + scan_acc" where
  "process_batch srcs ids [] acc = Inr acc"
| "process_batch srcs ids (ev # evs) acc =
     (case process_event srcs ids ev acc of
        Inl e \<Rightarrow> Inl e
      | Inr acc' \<Rightarrow> process_batch srcs ids evs acc')"

text \<open>
  The \<open>while\<close> loop (lines 198 to 271). \<open>k\<close> counts the calls of \<open>ReadEventLog\<close>.
  Every iteration that does not leave the loop adds at least one to \<open>total_read\<close>.
\<close>

function scan_loop ::
  "string list \<Rightarrow> int list \<Rightarrow> int \<Rightarrow> (nat \<Rightarrow> read_result) \<Rightarrow> nat \<Rightarrow> int \<Rightarrow> scan_acc
     \<Rightarrow> py_error + scan_acc" where
  "scan_loop srcs ids max_events rd k total_read acc =
     (if total_read < max_events then
        (case rd k of
           ReadRaises winerror \<Rightarrow>
             (if winerror = 18 then Inr acc else Inl (Win32Error winerror))
         | Events events \<Rightarrow>
             if events = [] then Inr acc
             else
               (let batch_size = int (length events);
                    events_to_process_in_batch = min batch_size (max_events - total_read)
                in case process_batch srcs ids (take (nat events_to_process_in_batch) events) acc of
                     Inl e \<Rightarrow> Inl e
                   | Inr acc' \<Rightarrow>
                       if total_read + events_to_process_in_batch \<ge> max_events then Inr acc'
                       else scan_loop srcs ids max_events rd (Suc k)
                              (total_read + events_to_process_in_batch) acc'))
      else Inr acc)"
  by pat_completeness auto
termination
  by (relation "measure (\<lambda>(srcs, ids, max_events, rd, k, total_read, acc). nat (max_events - total_read))")
     (auto simp: min_def split: if_splits)

declare scan_loop.simps [simp del]

text \<open>
  \<open>analyze_event_logs\<close>: the guards, the opening of the log, the loop, and the two
  outer \<open>except\<close> clauses, which turn every exception into \<open>(0, [], [])\<close>. Closing the
  handle in \<open>finally\<close> does not change the result.
\<close>

definition analyze_event_logs :: "config \<Rightarrow> evt_env \<Rightarrow> scan_acc" where
  "analyze_event_logs cfg env =
     (if \<not> is_windows env then (0, [], [])
      else
        (let evt_conf = get_or (event_log cfg) empty_evt_conf;
             log_name = get_or (log_name evt_conf) ''System'';
             max_events = get_or (max_events_to_read evt_conf) 1000;
             target_sources = get_or (target_sources evt_conf) [];
             target_event_ids = get_or (target_event_ids evt_conf) []
         in if target_sources = [] \<and> target_event_ids = [] then (0, [], [])
            else if \<not> OpenEventLog env log_name then (0, [], [])
            else
              (case scan_loop target_sources target_event_ids max_events (ReadEventLog env) 0 0
                      (0, [], []) of
                 Inl e \<Rightarrow> (0, [], [])
               | Inr r \<Rightarrow> r)))"

text \<open>The two criteria lists as the scan reads them from the configuration.\<close>

definition conf_sources :: "config \<Rightarrow> string list" where
  "conf_sources cfg = get_or (target_sources (get_or (event_log cfg) empty_evt_conf)) []"

definition conf_event_ids :: "config \<Rightarrow> int list" where
  "conf_event_ids cfg = get_or (target_event_ids (get_or (event_log cfg) empty_evt_conf)) []"

text \<open>The invariant of the three accumulators.\<close>

definition consistent :: "scan_acc \<Rightarrow> bool" where
  "consistent acc = (case acc of (c, d, r) \<Rightarrow> c = int (length d) \<and> c = int (length r))"

subsection \<open>Concrete logs and configurations\<close>

definition ev_pnp :: event where
  "ev_pnp = \<lparr>EventID = 2102, SourceName = ''Kernel-PnP'',
     TimeGenerated = Some (''2023-05-01 12:34:56'', ''2023-05-01T12:34:56''),
     SafeFormatMessage = Inr '' device removed ''\<rparr>"

text \<open>A raw ID with flag bits above the low 16 bits, and a message that cannot be formatted.\<close>

definition ev_flagged :: event where
  "ev_flagged = \<lparr>EventID = -1073739722, SourceName = ''Disk'',
     TimeGenerated = Some (''2023-05-01 12:35:10'', ''2023-05-01T12:35:10''),
     SafeFormatMessage = Inl ''no message file''\<rparr>"

definition ev_other :: event where
  "ev_other = \<lparr>EventID = 7, SourceName = ''Disk'',
     TimeGenerated = Some (''2023-05-01 12:36:00'', ''2023-05-01T12:36:00''),
     SafeFormatMessage = Inr ''bad block''\<rparr>"

definition cfg_criteria :: "string list \<Rightarrow> int list \<Rightarrow> config" where
  "cfg_criteria srcs ids =
     \<lparr>event_log = Some (empty_evt_conf\<lparr>target_sources := Some srcs, target_event_ids := Some ids\<rparr>),
      llm = None\<rparr>"

text \<open>A log that opens, gives its records in one batch and then nothing more.\<close>

definition env_log :: "event list \<Rightarrow> evt_env" where
  "env_log evs =
     \<lparr>is_windows = True, OpenEventLog = (\<lambda>name. True),
      ReadEventLog = (\<lambda>k. if k = 0 then Events evs else Events [])\<rparr>"

section \<open>The persistence functions (db_manager.py)\<close>

text \<open>
  A row of the table \<open>events\<close> and a row of the table \<open>hardware_info\<close>, without the
  columns the database fills in by itself (\<open>id\<close>, \<open>created_at\<close>).
\<close>

record event_row =
  row_timestamp :: string
  row_source :: string
  row_event_id :: int
  row_message :: string
  row_llm_analysis :: string
  abnormal_flag :: int

record hardware_row =
  hw_timestamp :: string
  hw_type :: string
  hw_name :: string
  hw_description :: string
  hw_device_id :: string

text \<open>The committed content of the two tables.\<close>

record database =
  events_table :: "event_row list"
  hardware_info_table :: "hardware_row list"

text \<open>
  What one \<open>cursor.execute\<close> does: it succeeds, it raises \<open>sqlite3.Error\<close> (the
  class that the functions catch), or it raises another exception, which no \<open>except\<close>
  clause of these functions catches.
\<close>

datatype exec_result = ExecOk | SqliteError | ExecRaises py_error

text \<open>
  What the SQLite library does during one call: whether \<open>get_db_connection\<close> gives a
  connection, what the i-th \<open>execute\<close> of the loop does, and whether \<open>commit\<close>
  succeeds. Rows inserted on a connection that is closed without a commit are rolled
  back.
\<close>

record db_env =
  connect_ok :: bool
  execute :: "nat \<Rightarrow> exec_result"
  commit_ok :: bool

text \<open>Why a loop of statements stops early.\<close>

datatype db_failure = Sqlite3Error | Escapes py_error

text \<open>An event dictionary as \<open>store_events\<close> reads it: every key may be absent.\<close>

record event_dict =
  d_timestamp :: "string option"
  d_source :: "string option"
  d_event_id :: "int option"
  d_message :: "string option"
  d_llm_analysis :: "string option"
  d_abnormal :: "bool option"

text \<open>A device dictionary as \<open>store_hardware_info\<close> reads it.\<close>

record device_dict =
  d_name :: "string option"
  d_description :: "string option"
  d_device_id :: "string option"

text \<open>The tuple of parameters of the \<open>INSERT\<close> of \<open>store_events\<close> (lines 238 to 243).\<close>

definition event_params :: "string \<Rightarrow> event_dict \<Rightarrow> event_row" where
  "event_params now event =
     \<lparr>row_timestamp = get_or (d_timestamp event) now,
      row_source = get_or (d_source event) [],
      row_event_id = get_or (d_event_id event) 0,
      row_message = get_or (d_message event) [],
      row_llm_analysis = get_or (d_llm_analysis event) [],
      abnormal_flag = (if get_or (d_abnormal event) False then 1 else 0)\<rparr>"

text \<open>
  An integer parameter is bound as a signed 64-bit value: for an integer outside this
  range the binding raises \<open>OverflowError\<close> before the statement runs.
\<close>

definition in_int64 :: "int \<Rightarrow> bool" where
  "in_int64 n = (- (2 ^ 63) \<le> n \<and> n < 2 ^ 63)"

definition execute_insert_event :: "db_env \<Rightarrow> nat \<Rightarrow> event_row \<Rightarrow> exec_result" where
  "execute_insert_event env i row =
     (if in_int64 (row_event_id row) then execute env i else ExecRaises OverflowError)"

text \<open>
  The \<open>for\<close> loop of \<open>store_events\<close>: \<open>i\<close> is the index of the statement,
  \<open>now i\<close> the clock read for its default timestamp, the pair holds the rows waiting
  for the commit and \<open>count\<close>. The loop stops at the first statement that raises.
\<close>

fun insert_events ::
  "db_env \<Rightarrow> (nat \<Rightarrow> string) \<Rightarrow> event_dict list \<Rightarrow> nat \<Rightarrow> event_row list \<times> int
     \<Rightarrow> db_failure + (event_row list \<times> int)" where
  "insert_events env now [] i acc = Inr acc"
| "insert_events env now (event # events) i (pending, count) =
     (case execute_insert_event env i (event_params (now i) event) of
        ExecOk \<Rightarrow>
          insert_events env now events (Suc i)
            (pending @ [event_params (now i) event], count + 1)
      | SqliteError \<Rightarrow> Inl Sqlite3Error
      | ExecRaises e \<Rightarrow> Inl (Escapes e))"

text \<open>
  \<open>store_events\<close>: the content of the database after the call, and the returned
  count or the exception that leaves the function. \<open>except sqlite3.Error\<close> returns 0;
  any other exception passes through \<open>finally\<close>, which closes the connection, and
  goes on to the caller.
\<close>

definition store_events ::
  "int option \<Rightarrow> event_dict list \<Rightarrow> (nat \<Rightarrow> string) \<Rightarrow> db_env \<Rightarrow> database
     \<Rightarrow> database \<times> (py_error + int)" where
  "store_events session_id events now env db =
     (if events = [] then (db, Inr 0)
      else if \<not> connect_ok env then (db, Inr 0)
      else
        (case insert_events env now events 0 ([], 0) of
           Inl Sqlite3Error \<Rightarrow> (db, Inr 0)
         | Inl (Escapes e) \<Rightarrow> (db, Inl e)
         | Inr (pending, count) \<Rightarrow>
             if commit_ok env
             then (db\<lparr>events_table := events_table db @ pending\<rparr>, Inr count)
             else (db, Inr 0)))"

definition device_params :: "string \<Rightarrow> string \<Rightarrow> device_dict \<Rightarrow> hardware_row" where
  "device_params ts ty device =
     \<lparr>hw_timestamp = ts, hw_type = ty,
      hw_name = get_or (d_name device) [],
      hw_description = get_or (d_description device) [],
      hw_device_id = get_or (d_device_id device) []\<rparr>"

fun insert_devices ::
  "db_env \<Rightarrow> string \<Rightarrow> string \<Rightarrow> device_dict list \<Rightarrow> nat \<Rightarrow> hardware_row list \<times> int
     \<Rightarrow> db_failure + (hardware_row list \<times> int)" where
  "insert_devices env ts ty [] i acc = Inr acc"
| "insert_devices env ts ty (device # devices) i (pending, count) =
     (case execute env i of
        ExecOk \<Rightarrow>
          insert_devices env ts ty devices (Suc i)
            (pending @ [device_params ts ty device], count + 1)
      | SqliteError \<Rightarrow> Inl Sqlite3Error
      | ExecRaises e \<Rightarrow> Inl (Escapes e))"

text \<open>\<open>store_hardware_info\<close>: one timestamp for the whole batch.\<close>

definition store_hardware_info ::
  "int option \<Rightarrow> string \<Rightarrow> device_dict list \<Rightarrow> string \<Rightarrow> db_env \<Rightarrow> database
     \<Rightarrow> database \<times> (py_error + int)" where
  "store_hardware_info session_id ty devices ts env db =
     (if devices = [] then (db, Inr 0)
      else if \<not> connect_ok env then (db, Inr 0)
      else
        (case insert_devices env ts ty devices 0 ([], 0) of
           Inl Sqlite3Error \<Rightarrow> (db, Inr 0)
         | Inl (Escapes e) \<Rightarrow> (db, Inl e)
         | Inr (pending, count) \<Rightarrow>
             if commit_ok env
             then (db\<lparr>hardware_info_table := hardware_info_table db @ pending\<rparr>, Inr count)
             else (db, Inr 0)))"

text \<open>
  The truth value of a session id (\<open>if session_id\<close>): \<open>None\<close> and 0 are false.
\<close>

definition truthy_id :: "int option \<Rightarrow> bool" where
  "truthy_id session_id = (case session_id of None \<Rightarrow> False | Some n \<Rightarrow> n \<noteq> 0)"

text \<open>
  The guarded call that every caller in monitor.py makes (lines 70, 108, 156, 414 and
  429): \<open>if session_id and batch: store(session_id, batch)\<close>. The result is the
  database after it and the exception, if any, that the call lets out.
\<close>

definition guarded_store_events ::
  "int option \<Rightarrow> event_dict list \<Rightarrow> (nat \<Rightarrow> string) \<Rightarrow> db_env \<Rightarrow> database
     \<Rightarrow> database \<times> py_error option" where
  "guarded_store_events session_id events now env db =
     (if truthy_id session_id \<and> events \<noteq> []
      then (case store_events session_id events now env db of
              (db', Inl e) \<Rightarrow> (db', Some e)
            | (db', Inr stored_count) \<Rightarrow> (db', None))
      else (db, None))"

definition guarded_store_hardware ::
  "int option \<Rightarrow> string \<Rightarrow> device_dict list \<Rightarrow> string \<Rightarrow> db_env \<Rightarrow> database
     \<Rightarrow> database \<times> py_error option" where
  "guarded_store_hardware session_id ty devices ts env db =
     (if truthy_id session_id \<and> devices \<noteq> []
      then (case store_hardware_info session_id ty devices ts env db of
              (db', Inl e) \<Rightarrow> (db', Some e)
            | (db', Inr count) \<Rightarrow> (db', None))
      else (db, None))"

subsection \<open>Concrete databases and batches\<close>

definition db_empty :: database where
  "db_empty = \<lparr>events_table = [], hardware_info_table = []\<rparr>"

definition db_works :: db_env where
  "db_works = \<lparr>connect_ok = True, execute = (\<lambda>i. ExecOk), commit_ok = True\<rparr>"





definition device_com1 :: device_dict where
  "device_com1 = \<lparr>d_name = Some ''COM1'', d_description = Some ''port'', d_device_id = None\<rparr>"

definition clock :: "nat \<Rightarrow> string" where
  "clock i = ''2023-05-02T00:00:0'' @ digits_of i"




section \<open>The log summarizer (llm_analyzer.py, preprocess_logs)\<close>

subsection \<open>The literals of the digest\<close>

text \<open>"There is no related event log content to analyse."\<close>

definition msg_no_logs :: string where
  "msg_no_logs =
     [CHR 0xEB, CHR 0xB6, CHR 0x84, CHR 0xEC, CHR 0x84, CHR 0x9D, CHR 0xED, CHR 0x95, CHR 0xA0] @
     '' '' @ [CHR 0xEA, CHR 0xB4, CHR 0x80, CHR 0xEB, CHR 0xA0, CHR 0xA8] @ '' '' @
     [CHR 0xEC, CHR 0x9D, CHR 0xB4, CHR 0xEB, CHR 0xB2, CHR 0xA4, CHR 0xED, CHR 0x8A, CHR 0xB8] @
     '' '' @ [CHR 0xEB, CHR 0xA1, CHR 0x9C, CHR 0xEA, CHR 0xB7, CHR 0xB8] @ '' '' @
     [CHR 0xEB, CHR 0x82, CHR 0xB4, CHR 0xEC, CHR 0x9A, CHR 0xA9, CHR 0xEC, CHR 0x9D, CHR 0xB4] @
     '' '' @
     [CHR 0xEC, CHR 0x97, CHR 0x86, CHR 0xEC, CHR 0x8A, CHR 0xB5, CHR 0xEB, CHR 0x8B, CHR 0x88, CHR 0xEB, CHR 0x8B, CHR 0xA4] @
     ''.''"

text \<open>"unknown"\<close>

definition lbl_unknown :: string where
  "lbl_unknown =
     [CHR 0xEC, CHR 0x95, CHR 0x8C] @ '' '' @ [CHR 0xEC, CHR 0x88, CHR 0x98] @ '' '' @
     [CHR 0xEC, CHR 0x97, CHR 0x86, CHR 0xEC, CHR 0x9D, CHR 0x8C]"

text \<open>"parse failed"\<close>

definition lbl_parse_failed :: string where
  "lbl_parse_failed =
     [CHR 0xED, CHR 0x8C, CHR 0x8C, CHR 0xEC, CHR 0x8B, CHR 0xB1] @ '' '' @
     [CHR 0xEC, CHR 0x8B, CHR 0xA4, CHR 0xED, CHR 0x8C, CHR 0xA8]"

text \<open>"## summary"\<close>

definition hdr_summary :: string where
  "hdr_summary =
     ''## '' @ [CHR 0xEC, CHR 0x9A, CHR 0x94, CHR 0xEC, CHR 0x95, CHR 0xBD] @ '' '' @
     [CHR 0xEC, CHR 0xA0, CHR 0x95, CHR 0xEB, CHR 0xB3, CHR 0xB4]"

text \<open>"- total number of logs: "\<close>

definition hdr_total :: string where
  "hdr_total =
     ''- '' @ [CHR 0xEC, CHR 0xB4, CHR 0x9D] @ '' '' @
     [CHR 0xEB, CHR 0xA1, CHR 0x9C, CHR 0xEA, CHR 0xB7, CHR 0xB8] @ '' '' @
     [CHR 0xEC, CHR 0x88, CHR 0x98] @ '': ''"

text \<open>the counter word for items\<close>

definition sfx_items :: string where
  "sfx_items =
     [CHR 0xEA, CHR 0xB0, CHR 0x9C]"

text \<open>"- time range: "\<close>

definition hdr_time_range :: string where
  "hdr_time_range =
     ''- '' @ [CHR 0xEC, CHR 0x8B, CHR 0x9C, CHR 0xEA, CHR 0xB0, CHR 0x84] @ '' '' @
     [CHR 0xEB, CHR 0xB2, CHR 0x94, CHR 0xEC, CHR 0x9C, CHR 0x84] @ '': ''"

text \<open>"- kinds of event source: "\<close>

definition hdr_source_kinds :: string where
  "hdr_source_kinds =
     ''- '' @
     [CHR 0xEC, CHR 0x9D, CHR 0xB4, CHR 0xEB, CHR 0xB2, CHR 0xA4, CHR 0xED, CHR 0x8A, CHR 0xB8] @
     '' '' @ [CHR 0xEC, CHR 0x86, CHR 0x8C, CHR 0xEC, CHR 0x8A, CHR 0xA4] @ '' '' @
     [CHR 0xEC, CHR 0x9C, CHR 0xA0, CHR 0xED, CHR 0x98, CHR 0x95] @ '': ''"

text \<open>the counter word for cases\<close>

definition sfx_cases :: string where
  "sfx_cases =
     [CHR 0xEA, CHR 0xB1, CHR 0xB4]"

text \<open>"in all " (the start of the truncation note)\<close>

definition note_total :: string where
  "note_total =
     [CHR 0xEC, CHR 0xA0, CHR 0x84, CHR 0xEC, CHR 0xB2, CHR 0xB4] @ '' ''"

text \<open>" cases, of which only the first 3 and the last 2 are shown."\<close>

definition note_truncated :: string where
  "note_truncated =
     [CHR 0xEA, CHR 0xB1, CHR 0xB4] @ '' '' @ [CHR 0xEC, CHR 0xA4, CHR 0x91] @ '' '' @
     [CHR 0xEC, CHR 0xB2, CHR 0x98, CHR 0xEC, CHR 0x9D, CHR 0x8C] @ '' 3'' @
     [CHR 0xEA, CHR 0xB1, CHR 0xB4, CHR 0xEA, CHR 0xB3, CHR 0xBC] @ '' '' @
     [CHR 0xEB, CHR 0xA7, CHR 0x88, CHR 0xEC, CHR 0xA7, CHR 0x80, CHR 0xEB, CHR 0xA7, CHR 0x89] @
     '' 2'' @ [CHR 0xEA, CHR 0xB1, CHR 0xB4, CHR 0xEB, CHR 0xA7, CHR 0x8C] @ '' '' @
     [CHR 0xED, CHR 0x91, CHR 0x9C, CHR 0xEC, CHR 0x8B, CHR 0x9C, CHR 0xED, CHR 0x95, CHR 0xA9, CHR 0xEB, CHR 0x8B, CHR 0x88, CHR 0xEB, CHR 0x8B, CHR 0xA4] @
     ''.''"

text \<open>"time: ", the literal of the time pattern\<close>

definition lit_time :: string where
  "lit_time =
     [CHR 0xEC, CHR 0x8B, CHR 0x9C, CHR 0xEA, CHR 0xB0, CHR 0x84] @ '': ''"

text \<open>"source: ", the literal of the source pattern\<close>

definition lit_source :: string where
  "lit_source =
     [CHR 0xEC, CHR 0x86, CHR 0x8C, CHR 0xEC, CHR 0x8A, CHR 0xA4] @ '': ''"

subsection \<open>The three regular expressions\<close>

text \<open>
  \<open>re.search\<close> tries a pattern at every position from the left and returns the first
  match. Each pattern of the source is a literal followed by greedy character classes,
  so the match at a position, when there is one, takes the longest runs; the functions
  \<open>time_at\<close>, \<open>id_at\<close> and \<open>source_at\<close> give group 1 of the match at the start of a
  string. A digit is an ASCII digit.
\<close>

fun re_search :: "(string \<Rightarrow> string option) \<Rightarrow> string \<Rightarrow> string option" where
  "re_search at [] = at []"
| "re_search at (c # cs) = (case at (c # cs) of Some g \<Rightarrow> Some g | None \<Rightarrow> re_search at cs)"

definition is_digit :: "char \<Rightarrow> bool" where
  "is_digit c = (let n = (of_char c :: nat) in 48 \<le> n \<and> n \<le> 57)"

text \<open>The pattern of the time: the literal, then \<open>([\d-]+ [\d:]+)\<close>.\<close>

definition time_at :: "string \<Rightarrow> string option" where
  "time_at s =
     (if prefix lit_time s then
        (let r = drop (length lit_time) s;
             a = takeWhile (\<lambda>c. is_digit c \<or> c = CHR ''-'') r
         in if a = [] then None
            else
              (case dropWhile (\<lambda>c. is_digit c \<or> c = CHR ''-'') r of
                 [] \<Rightarrow> None
               | c # r2 \<Rightarrow>
                   if c = CHR '' '' then
                     (let b = takeWhile (\<lambda>c. is_digit c \<or> c = CHR '':'') r2
                      in if b = [] then None else Some (a @ CHR '' '' # b))
                   else None))
      else None)"

text \<open>The pattern \<open>ID: (\d+)\<close>.\<close>

definition id_at :: "string \<Rightarrow> string option" where
  "id_at s =
     (if prefix ''ID: '' s then
        (let d = takeWhile is_digit (drop 4 s) in if d = [] then None else Some d)
      else None)"

text \<open>The pattern of the source: the literal, then \<open>([^,]+)\<close>.\<close>

definition source_at :: "string \<Rightarrow> string option" where
  "source_at s =
     (if prefix lit_source s then
        (let g = takeWhile (\<lambda>c. c \<noteq> CHR '','') (drop (length lit_source) s)
         in if g = [] then None else Some g)
      else None)"

subsection \<open>Parsing the time\<close>

text \<open>
  \<open>datetime.strptime(time_str, '%Y-%m-%d %H:%M:%S')\<close> on a string the time pattern
  returns (digits, hyphens, one space, digits and colons). The year has four digits,
  the other fields one or two; the values must make a date that exists. \<open>None\<close> is
  \<open>ValueError\<close>. A time is the tuple of its six fields, ordered lexicographically as
  \<open>datetime\<close> values are.
\<close>

type_synonym datetime = "nat \<times> nat \<times> nat \<times> nat \<times> nat \<times> nat"

fun split_on :: "char \<Rightarrow> string \<Rightarrow> string list" where
  "split_on d [] = [[]]"
| "split_on d (c # cs) =
     (if c = d then [] # split_on d cs
      else (case split_on d cs of [] \<Rightarrow> [[c]] | w # ws \<Rightarrow> (c # w) # ws))"

definition nat_of_digits :: "string \<Rightarrow> nat" where
  "nat_of_digits s = foldl (\<lambda>n c. 10 * n + (of_char c - 48)) 0 s"

definition field_ok :: "string \<Rightarrow> bool" where
  "field_ok s = (s \<noteq> [] \<and> length s \<le> 2 \<and> list_all is_digit s)"

definition days_in_month :: "nat \<Rightarrow> nat \<Rightarrow> nat" where
  "days_in_month y m =
     (if m = 2 then (if y mod 4 = 0 \<and> (y mod 100 \<noteq> 0 \<or> y mod 400 = 0) then 29 else 28)
      else if m = 4 \<or> m = 6 \<or> m = 9 \<or> m = 11 then 30 else 31)"

definition strptime :: "string \<Rightarrow> datetime option" where
  "strptime s =
     (case split_on (CHR '' '') s of
        [date, time] \<Rightarrow>
          (case (split_on (CHR ''-'') date, split_on (CHR '':'') time) of
             ([ys, ms, ds], [hs, mins, ss]) \<Rightarrow>
               (let y = nat_of_digits ys; m = nat_of_digits ms; d = nat_of_digits ds;
                    h = nat_of_digits hs; mi = nat_of_digits mins; sec = nat_of_digits ss
                in if length ys = 4 \<and> list_all is_digit ys \<and> field_ok ms \<and> field_ok ds \<and>
                      field_ok hs \<and> field_ok mins \<and> field_ok ss \<and>
                      1 \<le> y \<and> 1 \<le> m \<and> m \<le> 12 \<and> 1 \<le> d \<and> d \<le> days_in_month y m \<and>
                      h \<le> 23 \<and> mi \<le> 59 \<and> sec \<le> 59
                   then Some (y, m, d, h, mi, sec) else None)
           | _ \<Rightarrow> None)
      | _ \<Rightarrow> None)"

text \<open>\<open>datetime.datetime.min\<close>.\<close>

definition datetime_min :: datetime where
  "datetime_min = (1, 1, 1, 0, 0, 0)"

subsection \<open>The summarizer\<close>

record parsed_log =
  p_time :: string
  p_timestamp :: datetime
  p_source :: string
  p_event_id :: string
  full_log :: string

text \<open>
  The body of the first loop (lines 28 to 55) on one line: \<open>None\<close> when nothing is
  appended to \<open>parsed_logs\<close>. A line without a match of the time pattern reaches no
  \<open>append\<close>: the \<open>if time_match\<close> has no \<open>else\<close>, and no exception is raised. The
  \<open>except\<close> branch is reached when \<open>strptime\<close> raises.
\<close>

definition parse_log :: "string \<Rightarrow> parsed_log option" where
  "parse_log log =
     (case re_search time_at log of
        None \<Rightarrow> None
      | Some time_str \<Rightarrow>
          (let event_id = (case re_search id_at log of Some d \<Rightarrow> d | None \<Rightarrow> lbl_unknown);
               src = (case re_search source_at log of Some g \<Rightarrow> strip g | None \<Rightarrow> lbl_unknown)
           in case strptime time_str of
                Some ts \<Rightarrow>
                  Some \<lparr>p_time = time_str, p_timestamp = ts, p_source = src,
                        p_event_id = event_id, full_log = log\<rparr>
              | None \<Rightarrow>
                  Some \<lparr>p_time = ''1970-01-01 00:00:00'', p_timestamp = datetime_min,
                        p_source = lbl_parse_failed, p_event_id = ''0'', full_log = log\<rparr>))"

fun parse_logs :: "string list \<Rightarrow> parsed_log list" where
  "parse_logs [] = []"
| "parse_logs (log # logs) =
     (case parse_log log of None \<Rightarrow> parse_logs logs | Some p \<Rightarrow> p # parse_logs logs)"

text \<open>The key of a group (line 63) and the insertion into the dictionary of groups.\<close>

definition group_key :: "parsed_log \<Rightarrow> string" where
  "group_key log = p_source log @ '' (ID: '' @ p_event_id log @ '')''"

fun add_to_group ::
  "(string \<times> parsed_log list) list \<Rightarrow> string \<Rightarrow> parsed_log \<Rightarrow> (string \<times> parsed_log list) list" where
  "add_to_group [] key log = [(key, [log])]"
| "add_to_group ((k, logs) # rest) key log =
     (if k = key then (k, logs @ [log]) # rest else (k, logs) # add_to_group rest key log)"

definition group_logs :: "parsed_log list \<Rightarrow> (string \<times> parsed_log list) list" where
  "group_logs sorted_logs = foldl (\<lambda>g log. add_to_group g (group_key log) log) [] sorted_logs"

text \<open>Lines 78 to 80: \<open>logs[:3] + logs[-2:]\<close> for a group of more than five.\<close>

definition display_logs :: "parsed_log list \<Rightarrow> parsed_log list" where
  "display_logs logs =
     (if length logs > 5 then take 3 logs @ drop (length logs - 2) logs else logs)"

definition truncation_note :: "parsed_log list \<Rightarrow> string" where
  "truncation_note logs = note_total @ str_of_int (int (length logs)) @ note_truncated"

definition entry_line :: "parsed_log \<Rightarrow> string" where
  "entry_line log = ''['' @ p_time log @ ''] '' @ full_log log"

text \<open>The lines that the second loop (lines 75 to 87) appends for one group.\<close>

definition group_lines :: "string \<times> parsed_log list \<Rightarrow> string list" where
  "group_lines g =
     (case g of (key, logs) \<Rightarrow>
        [''## '' @ key @ '' - '' @ str_of_int (int (length logs)) @ sfx_cases] @
        (if length logs > 5 then [truncation_note logs] else []) @
        map entry_line (display_logs logs) @
        [[]])"

fun join_lines :: "string list \<Rightarrow> string" where
  "join_lines [] = []"
| "join_lines [l] = l"
| "join_lines (l # ls) = l @ CHR 0x0A # join_lines ls"

text \<open>
  \<open>preprocess_logs\<close>. With no parsed line, \<open>sorted_logs[0]\<close> (line 72) raises
  \<open>IndexError\<close>.
\<close>

definition preprocess_logs :: "string list \<Rightarrow> int \<Rightarrow> py_error + string" where
  "preprocess_logs log_details max_logs =
     (if log_details = [] then Inr msg_no_logs
      else
        (let recent_logs = slice_to log_details max_logs;
             parsed_logs = parse_logs recent_logs;
             sorted_logs = sort_key p_timestamp parsed_logs;
             grouped_logs = group_logs sorted_logs
         in if sorted_logs = [] then Inl IndexError
            else
              Inr (join_lines
                ([hdr_summary,
                  hdr_total @ str_of_int (int (length sorted_logs)) @ sfx_items,
                  hdr_time_range @ p_time (hd sorted_logs) @ '' ~ '' @ p_time (last sorted_logs),
                  hdr_source_kinds @ str_of_int (int (length grouped_logs)) @ sfx_items @ [CHR 0x0A]]
                 @ concat (map group_lines grouped_logs)))))"

subsection \<open>Concrete lines and groups\<close>

text \<open>A detail line as the scan writes it, and a line that holds no time.\<close>

definition line_good :: string where
  "line_good = detail_line ''2023-05-01 12:34:56'' ''Kernel-PnP'' 2102 ''device removed''"

definition line_garbage :: string where
  "line_garbage = ''garbage''"

definition sample_log :: "string \<Rightarrow> string \<Rightarrow> parsed_log" where
  "sample_log src sec =
     \<lparr>p_time = ''2023-05-01 12:34:'' @ sec,
      p_timestamp = (2023, 5, 1, 12, 34, nat_of_digits sec),
      p_source = src, p_event_id = ''1'', full_log = ''line '' @ sec\<rparr>"

definition six_logs :: "parsed_log list" where
  "six_logs =
     [sample_log ''SrcA'' ''01'', sample_log ''SrcA'' ''02'', sample_log ''SrcA'' ''03'',
      sample_log ''SrcA'' ''04'', sample_log ''SrcA'' ''05'', sample_log ''SrcA'' ''06'']"

definition two_logs :: "parsed_log list" where
  "two_logs = [sample_log ''SrcB'' ''07'', sample_log ''SrcB'' ''08'']"

section \<open>The analysis client (llm_analyzer.py, analyze_logs_with_llm)\<close>

subsection \<open>The result strings\<close>

text \<open>"no API key"\<close>

definition msg_no_api_key :: string where
  "msg_no_api_key =
     ''API '' @ [CHR 0xED, CHR 0x82, CHR 0xA4] @ '' '' @
     [CHR 0xEC, CHR 0x97, CHR 0x86, CHR 0xEC, CHR 0x9D, CHR 0x8C]"

text \<open>"LLM configuration error"\<close>

definition msg_config_error :: string where
  "msg_config_error =
     ''LLM '' @ [CHR 0xEC, CHR 0x84, CHR 0xA4, CHR 0xEC, CHR 0xA0, CHR 0x95] @ '' '' @
     [CHR 0xEC, CHR 0x98, CHR 0xA4, CHR 0xEB, CHR 0xA5, CHR 0x98]"

text \<open>"no log content to analyse"\<close>

definition msg_nothing_to_analyze :: string where
  "msg_nothing_to_analyze =
     [CHR 0xEB, CHR 0xB6, CHR 0x84, CHR 0xEC, CHR 0x84, CHR 0x9D, CHR 0xED, CHR 0x95, CHR 0xA0] @
     '' '' @ [CHR 0xEB, CHR 0xA1, CHR 0x9C, CHR 0xEA, CHR 0xB7, CHR 0xB8] @ '' '' @
     [CHR 0xEB, CHR 0x82, CHR 0xB4, CHR 0xEC, CHR 0x9A, CHR 0xA9] @ '' '' @
     [CHR 0xEC, CHR 0x97, CHR 0x86, CHR 0xEC, CHR 0x9D, CHR 0x8C]"

text \<open>"abnormal pattern suspected: "\<close>

definition pfx_abnormal :: string where
  "pfx_abnormal =
     [CHR 0xEB, CHR 0xB9, CHR 0x84, CHR 0xEC, CHR 0xA0, CHR 0x95, CHR 0xEC, CHR 0x83, CHR 0x81] @
     '' '' @ [CHR 0xED, CHR 0x8C, CHR 0xA8, CHR 0xED, CHR 0x84, CHR 0xB4] @ '' '' @
     [CHR 0xEC, CHR 0x9D, CHR 0x98, CHR 0xEC, CHR 0x8B, CHR 0xAC, CHR 0xEB, CHR 0x90, CHR 0xA8] @
     '': ''"

text \<open>"presumed within normal range: "\<close>

definition pfx_normal :: string where
  "pfx_normal =
     [CHR 0xEC, CHR 0xA0, CHR 0x95, CHR 0xEC, CHR 0x83, CHR 0x81] @ '' '' @
     [CHR 0xEB, CHR 0xB2, CHR 0x94, CHR 0xEC, CHR 0x9C, CHR 0x84] @ '' '' @
     [CHR 0xEC, CHR 0xB6, CHR 0x94, CHR 0xEC, CHR 0xA0, CHR 0x95] @ '': ''"

text \<open>"LLM response format error"\<close>

definition msg_format_error :: string where
  "msg_format_error =
     ''LLM '' @ [CHR 0xEC, CHR 0x9D, CHR 0x91, CHR 0xEB, CHR 0x8B, CHR 0xB5] @ '' '' @
     [CHR 0xED, CHR 0x98, CHR 0x95, CHR 0xEC, CHR 0x8B, CHR 0x9D] @ '' '' @
     [CHR 0xEC, CHR 0x98, CHR 0xA4, CHR 0xEB, CHR 0xA5, CHR 0x98]"

text \<open>"LLM API timeout"\<close>

definition msg_timeout :: string where
  "msg_timeout =
     ''LLM API '' @ [CHR 0xEC, CHR 0x8B, CHR 0x9C, CHR 0xEA, CHR 0xB0, CHR 0x84] @ '' '' @
     [CHR 0xEC, CHR 0xB4, CHR 0x88, CHR 0xEA, CHR 0xB3, CHR 0xBC]"

text \<open>"LLM API connection error"\<close>

definition msg_connection_error :: string where
  "msg_connection_error =
     ''LLM API '' @ [CHR 0xEC, CHR 0x97, CHR 0xB0, CHR 0xEA, CHR 0xB2, CHR 0xB0] @ '' '' @
     [CHR 0xEC, CHR 0x98, CHR 0xA4, CHR 0xEB, CHR 0xA5, CHR 0x98]"

text \<open>"LLM API request error: "\<close>

definition pfx_request_error :: string where
  "pfx_request_error =
     ''LLM API '' @ [CHR 0xEC, CHR 0x9A, CHR 0x94, CHR 0xEC, CHR 0xB2, CHR 0xAD] @ '' '' @
     [CHR 0xEC, CHR 0x98, CHR 0xA4, CHR 0xEB, CHR 0xA5, CHR 0x98] @ '': ''"

text \<open>"LLM response parse error"\<close>

definition msg_parse_error :: string where
  "msg_parse_error =
     ''LLM '' @ [CHR 0xEC, CHR 0x9D, CHR 0x91, CHR 0xEB, CHR 0x8B, CHR 0xB5] @ '' '' @
     [CHR 0xED, CHR 0x8C, CHR 0x8C, CHR 0xEC, CHR 0x8B, CHR 0xB1] @ '' '' @
     [CHR 0xEC, CHR 0x98, CHR 0xA4, CHR 0xEB, CHR 0xA5, CHR 0x98]"

text \<open>"unknown error during LLM analysis"\<close>

definition msg_unknown_error :: string where
  "msg_unknown_error =
     ''LLM '' @ [CHR 0xEB, CHR 0xB6, CHR 0x84, CHR 0xEC, CHR 0x84, CHR 0x9D] @ '' '' @
     [CHR 0xEC, CHR 0xA4, CHR 0x91] @ '' '' @ [CHR 0xEC, CHR 0x95, CHR 0x8C] @ '' '' @
     [CHR 0xEC, CHR 0x88, CHR 0x98] @ '' '' @
     [CHR 0xEC, CHR 0x97, CHR 0x86, CHR 0xEB, CHR 0x8A, CHR 0x94] @ '' '' @
     [CHR 0xEC, CHR 0x98, CHR 0xA4, CHR 0xEB, CHR 0xA5, CHR 0x98]"

subsection \<open>The response as Python sees it\<close>

text \<open>
  The value that \<open>response.json()\<close> returns. A dictionary is the list of its items,
  each key once.
\<close>

datatype json =
    JNull
  | JBool bool
  | JNum int
  | JStr string
  | JArr "json list"
  | JObj "(string \<times> json) list"

text \<open>The truth value of a parsed value.\<close>

fun truthy :: "json \<Rightarrow> bool" where
  "truthy JNull = False"
| "truthy (JBool b) = b"
| "truthy (JNum n) = (n \<noteq> 0)"
| "truthy (JStr s) = (s \<noteq> [])"
| "truthy (JArr xs) = (xs \<noteq> [])"
| "truthy (JObj kvs) = (kvs \<noteq> [])"

text \<open>\<open>x.get(k)\<close>: only a dictionary has the method.\<close>

fun dict_get :: "json \<Rightarrow> string \<Rightarrow> py_error + json" where
  "dict_get (JObj kvs) k = Inr (case map_of kvs k of None \<Rightarrow> JNull | Some v \<Rightarrow> v)"
| "dict_get x k = Inl AttributeError"

text \<open>\<open>x[k]\<close> with a string key.\<close>

fun subscript_key :: "json \<Rightarrow> string \<Rightarrow> py_error + json" where
  "subscript_key (JObj kvs) k = (case map_of kvs k of None \<Rightarrow> Inl KeyError | Some v \<Rightarrow> Inr v)"
| "subscript_key x k = Inl TypeError"

text \<open>\<open>len(x)\<close>.\<close>

fun py_len :: "json \<Rightarrow> py_error + int" where
  "py_len (JStr s) = Inr (int (length s))"
| "py_len (JArr xs) = Inr (int (length xs))"
| "py_len (JObj kvs) = Inr (int (length kvs))"
| "py_len x = Inl TypeError"

text \<open>
  \<open>x[0]\<close>. The keys of a parsed dictionary are strings, so 0 is no key of it. The
  first element of a string is a string of one character, on which every later step
  fails in the same way whatever the character is.
\<close>

fun subscript_0 :: "json \<Rightarrow> py_error + json" where
  "subscript_0 (JArr []) = Inl IndexError"
| "subscript_0 (JArr (x # xs)) = Inr x"
| "subscript_0 (JStr []) = Inl IndexError"
| "subscript_0 (JStr (c # cs)) = Inr (JStr [c])"
| "subscript_0 (JObj kvs) = Inl KeyError"
| "subscript_0 x = Inl TypeError"

subsection \<open>The call of the model\<close>

text \<open>
  What \<open>requests.post\<close>, \<open>raise_for_status\<close> and \<open>response.json()\<close> do between them:
  one of the exceptions that the \<open>except\<close> clauses tell apart, or a parsed body.
  \<open>RequestException\<close> carries the name of the class of the exception;
  \<open>JSONDecodeError\<close> is a decoding error that is not a \<open>RequestException\<close>.
\<close>

datatype http_outcome =
    Timeout
  | ConnectionError
  | RequestException string
  | JSONDecodeError
  | OtherException
  | Body json

text \<open>
  The parts of the request that vary: the fixed text of the prompt, the time of the
  request, the timeout and the temperature are left out.
\<close>

record llm_request =
  req_url :: string
  req_api_key :: string
  req_model :: string
  req_log_name :: string
  req_sources :: "string list"
  req_ids :: "int list"
  req_log_summary :: string

text \<open>
  The network and the library: the outcome of a request, and \<open>str()\<close> of a parsed value
  that is not a string (needed where the source formats an unexpected content).
\<close>

record llm_env =
  post :: "llm_request \<Rightarrow> http_outcome"
  str_of_json :: "json \<Rightarrow> string"

text \<open>
  Line 199: \<open>any(keyword in llm_response_content.lower() for keyword in
  abnormal_keywords)\<close>. The response is lowered, the keyword is taken as configured.
\<close>

definition is_abnormal :: "string list \<Rightarrow> string \<Rightarrow> bool" where
  "is_abnormal keywords llm_response_content =
     list_ex (\<lambda>keyword. py_in keyword (lower llm_response_content)) keywords"

text \<open>
  Lines 194 to 205, on a content that is true. Slicing (line 196) fails on a number, a
  boolean and a dictionary; \<open>lower\<close> exists on strings only, and is called once per
  keyword.
\<close>

definition classify :: "(json \<Rightarrow> string) \<Rightarrow> string list \<Rightarrow> json \<Rightarrow> py_error + string" where
  "classify to_str keywords content =
     (case content of
        JStr s \<Rightarrow>
          Inr (if is_abnormal keywords s then pfx_abnormal @ s else pfx_normal @ s)
      | JArr xs \<Rightarrow>
          (if keywords = [] then Inr (pfx_normal @ to_str content)
           else Inl AttributeError)
      | _ \<Rightarrow> Inl TypeError)"

text \<open>
  Lines 190 to 211, the body of the \<open>try\<close> after the response is parsed. \<open>Inl\<close> is
  an exception raised inside the \<open>try\<close>.
\<close>

definition read_response ::
  "(json \<Rightarrow> string) \<Rightarrow> string list \<Rightarrow> json \<Rightarrow> py_error + string" where
  "read_response to_str keywords result =
     (case dict_get result ''choices'' of
        Inl e \<Rightarrow> Inl e
      | Inr choices \<Rightarrow>
          if \<not> truthy choices then Inr msg_format_error
          else
            (case py_len choices of
               Inl e \<Rightarrow> Inl e
             | Inr n \<Rightarrow>
                 if \<not> n > 0 then Inr msg_format_error
                 else
                   (case subscript_0 choices of
                      Inl e \<Rightarrow> Inl e
                    | Inr first \<Rightarrow>
                        (case dict_get first ''message'' of
                           Inl e \<Rightarrow> Inl e
                         | Inr msg \<Rightarrow>
                             if \<not> truthy msg then Inr msg_format_error
                             else
                               (case dict_get msg ''content'' of
                                  Inl e \<Rightarrow> Inl e
                                | Inr content \<Rightarrow>
                                    if \<not> truthy content then Inr msg_format_error
                                    else classify to_str keywords content)))))"

text \<open>
  The \<open>try\<close> with its \<open>except\<close> clauses (lines 186 to 230): every outcome and every
  exception of the body becomes a string.
\<close>

definition call_model :: "llm_env \<Rightarrow> string list \<Rightarrow> llm_request \<Rightarrow> string" where
  "call_model env keywords request =
     (case post env request of
        Timeout \<Rightarrow> msg_timeout
      | ConnectionError \<Rightarrow> msg_connection_error
      | RequestException class_name \<Rightarrow> pfx_request_error @ class_name
      | JSONDecodeError \<Rightarrow> msg_parse_error
      | OtherException \<Rightarrow> msg_unknown_error
      | Body result \<Rightarrow>
          (case read_response (str_of_json env) keywords result of
             Inl e \<Rightarrow> msg_unknown_error
           | Inr verdict \<Rightarrow> verdict))"

text \<open>The truth value of an optional string: \<open>None\<close> and the empty string are false.\<close>

definition truthy_str :: "string option \<Rightarrow> bool" where
  "truthy_str s = (case s of None \<Rightarrow> False | Some t \<Rightarrow> t \<noteq> [])"

text \<open>
  \<open>analyze_logs_with_llm\<close>. The call of \<open>preprocess_logs\<close> (line 110) stands before
  the \<open>try\<close>, so what it raises leaves the function: \<open>Inl\<close>.
\<close>

definition analyze_logs_with_llm ::
  "llm_env \<Rightarrow> string list \<Rightarrow> config \<Rightarrow> string option \<Rightarrow> py_error + string" where
  "analyze_logs_with_llm env log_details cfg api_key =
     (if \<not> truthy_str api_key then Inr msg_no_api_key
      else
        (let llm_config = get_or (llm cfg) empty_llm_conf;
             max_logs = get_or (max_log_details_for_llm llm_config) 20;
             keywords = get_or (abnormal_keywords llm_config) []
         in if \<not> truthy_str (api_url llm_config) \<or> \<not> truthy_str (model llm_config)
            then Inr msg_config_error
            else
              (case preprocess_logs log_details max_logs of
                 Inl e \<Rightarrow> Inl e
               | Inr log_summary \<Rightarrow>
                   if log_summary = [] \<or> log_summary = msg_no_logs
                   then Inr msg_nothing_to_analyze
                   else
                     (let event_config = get_or (event_log cfg) empty_evt_conf
                      in Inr (call_model env keywords
                           \<lparr>req_url = the (api_url llm_config),
                            req_api_key = the api_key,
                            req_model = the (model llm_config),
                            req_log_name = get_or (log_name event_config) ''System'',
                            req_sources = get_or (target_sources event_config) [],
                            req_ids = get_or (target_event_ids event_config) [],
                            req_log_summary = log_summary\<rparr>)))))"

section \<open>The orchestrator (monitor.py, run_monitor)\<close>

subsection \<open>The texts of the session summary\<close>

text \<open>"abnormal pattern suspected", the text run_monitor looks for\<close>

definition marker_abnormal :: string where
  "marker_abnormal =
     [CHR 0xEB, CHR 0xB9, CHR 0x84, CHR 0xEC, CHR 0xA0, CHR 0x95, CHR 0xEC, CHR 0x83, CHR 0x81] @
     '' '' @ [CHR 0xED, CHR 0x8C, CHR 0xA8, CHR 0xED, CHR 0x84, CHR 0xB4] @ '' '' @
     [CHR 0xEC, CHR 0x9D, CHR 0x98, CHR 0xEC, CHR 0x8B, CHR 0xAC, CHR 0xEB, CHR 0x90, CHR 0xA8]"

text \<open>"LLM analysis not performed"\<close>

definition msg_not_performed :: string where
  "msg_not_performed =
     ''LLM '' @ [CHR 0xEB, CHR 0xB6, CHR 0x84, CHR 0xEC, CHR 0x84, CHR 0x9D] @ '' '' @
     [CHR 0xEB, CHR 0xAF, CHR 0xB8, CHR 0xEC, CHR 0x88, CHR 0x98, CHR 0xED, CHR 0x96, CHR 0x89]"

text \<open>"events found: "\<close>

definition sum_events :: string where
  "sum_events =
     [CHR 0xEC, CHR 0x9D, CHR 0xB4, CHR 0xEB, CHR 0xB2, CHR 0xA4, CHR 0xED, CHR 0x8A, CHR 0xB8] @
     '' '' @ [CHR 0xEB, CHR 0xB0, CHR 0x9C, CHR 0xEA, CHR 0xB2, CHR 0xAC] @ '': ''"

text \<open>", devices found: " after the counter word\<close>

definition sum_devices :: string where
  "sum_devices =
     [CHR 0xEA, CHR 0xB0, CHR 0x9C] @ '', '' @
     [CHR 0xEC, CHR 0x9E, CHR 0xA5, CHR 0xEC, CHR 0xB9, CHR 0x98] @ '' '' @
     [CHR 0xEB, CHR 0xB0, CHR 0x9C, CHR 0xEA, CHR 0xB2, CHR 0xAC] @ '': ''"

text \<open>", abnormal pattern detected"\<close>

definition sum_abnormal :: string where
  "sum_abnormal =
     '', '' @
     [CHR 0xEB, CHR 0xB9, CHR 0x84, CHR 0xEC, CHR 0xA0, CHR 0x95, CHR 0xEC, CHR 0x83, CHR 0x81] @
     '' '' @ [CHR 0xED, CHR 0x8C, CHR 0xA8, CHR 0xED, CHR 0x84, CHR 0xB4] @ '' '' @
     [CHR 0xEA, CHR 0xB0, CHR 0x90, CHR 0xEC, CHR 0xA7, CHR 0x80, CHR 0xEB, CHR 0x90, CHR 0xA8]"

text \<open>", LLM analysis failed (no API key)"\<close>

definition sum_no_key :: string where
  "sum_no_key =
     '', LLM '' @ [CHR 0xEB, CHR 0xB6, CHR 0x84, CHR 0xEC, CHR 0x84, CHR 0x9D] @ '' '' @
     [CHR 0xEC, CHR 0x8B, CHR 0xA4, CHR 0xED, CHR 0x8C, CHR 0xA8] @ '' (API '' @
     [CHR 0xED, CHR 0x82, CHR 0xA4] @ '' '' @
     [CHR 0xEC, CHR 0x97, CHR 0x86, CHR 0xEC, CHR 0x9D, CHR 0x8C] @ '')''"

text \<open>", LLM analysis disabled"\<close>

definition sum_disabled :: string where
  "sum_disabled =
     '', LLM '' @ [CHR 0xEB, CHR 0xB6, CHR 0x84, CHR 0xEC, CHR 0x84, CHR 0x9D] @ '' '' @
     [CHR 0xEB, CHR 0xB9, CHR 0x84, CHR 0xED, CHR 0x99, CHR 0x9C, CHR 0xEC, CHR 0x84, CHR 0xB1, CHR 0xED, CHR 0x99, CHR 0x94, CHR 0xEB, CHR 0x90, CHR 0xA8]"

text \<open>", LLM analysis below threshold"\<close>

definition sum_below :: string where
  "sum_below =
     '', LLM '' @ [CHR 0xEB, CHR 0xB6, CHR 0x84, CHR 0xEC, CHR 0x84, CHR 0x9D] @ '' '' @
     [CHR 0xEC, CHR 0x9E, CHR 0x84, CHR 0xEA, CHR 0xB3, CHR 0x84, CHR 0xEA, CHR 0xB0, CHR 0x92] @
     '' '' @ [CHR 0xEB, CHR 0xAF, CHR 0xB8, CHR 0xEB, CHR 0x8B, CHR 0xAC]"

subsection \<open>Hardware collection\<close>

text \<open>
  The three collectors share their last step: the list of devices that the collector
  has built is stored when the session id is true and the list is not empty, and the
  list is returned; the call stands inside the collector's \<open>try\<close>, so an exception
  that the store lets out makes the collector return the empty list. The enumeration
  itself (serial ports, WMI queries, the filter on
  names) is outside this development: the environment gives the list each collector
  builds, empty when the enumeration fails.
\<close>

definition collect_hardware ::
  "int option \<Rightarrow> string \<Rightarrow> device_dict list \<Rightarrow> string \<Rightarrow> db_env \<Rightarrow> database
     \<Rightarrow> device_dict list \<times> database" where
  "collect_hardware session_id ty devices ts env db =
     (case guarded_store_hardware session_id ty devices ts env db of
        (db', None) \<Rightarrow> (devices, db')
      | (db', Some e) \<Rightarrow> ([], db'))"

subsection \<open>A run\<close>

text \<open>Everything outside the program that a run meets.\<close>

record run_env =
  loaded_api_key :: "string option"
  new_session_id :: "int option"
  found_com_ports :: "device_dict list"
  found_cameras :: "device_dict list"
  found_usb_devices :: "device_dict list"
  os :: evt_env
  net :: llm_env
  dbenv :: db_env
  hw_now :: string
  event_now :: "nat \<Rightarrow> string"

text \<open>The dictionary that \<open>run_monitor\<close> returns.\<close>

record run_result =
  r_event_count :: int
  r_hw_devices_found :: int
  r_llm_analysis_performed :: bool
  r_llm_result :: string
  r_session_id :: "int option"

text \<open>The arguments of \<open>end_scan_session\<close>.\<close>

record session_update =
  u_events_found :: int
  u_hw_devices_found :: int
  u_llm_analysis_performed :: int
  u_summary :: string

text \<open>
  What a run leaves behind: the value returned or the exception that ends the run, the
  argument of every call of the analysis client, the list \<open>event_objects\<close> as the
  run leaves it, the tables, and the update that closes the session.
\<close>

record run_outcome =
  returned :: "py_error + run_result"
  analysis_calls :: "string list list"
  event_objects :: "matched_event list"
  db_after :: database
  session_closed :: "session_update option"

definition as_dict :: "matched_event \<Rightarrow> event_dict" where
  "as_dict e =
     \<lparr>d_timestamp = Some (timestamp e), d_source = Some (source e),
      d_event_id = Some (event_id e), d_message = Some (message e),
      d_llm_analysis = Some (llm_analysis e), d_abnormal = Some (abnormal e)\<rparr>"

text \<open>Lines 409 to 411: the same verdict is written into every record.\<close>

definition back_fill :: "string \<Rightarrow> bool \<Rightarrow> matched_event list \<Rightarrow> matched_event list" where
  "back_fill llm_result flag events =
     map (\<lambda>event. event\<lparr>llm_analysis := llm_result, abnormal := flag\<rparr>) events"

text \<open>
  Lines 357 to 360: without a key the feature is switched off in the configuration.
  \<open>config['llm']\<close> raises \<open>KeyError\<close> when the configuration has no such section.
\<close>

definition disable_llm_without_key :: "string option \<Rightarrow> config \<Rightarrow> py_error + config" where
  "disable_llm_without_key api_key cfg =
     (if api_key = None \<and> get_or (enabled (get_or (llm cfg) empty_llm_conf)) True then
        (case llm cfg of
           None \<Rightarrow> Inl KeyError
         | Some l \<Rightarrow> Inr (cfg\<lparr>llm := Some (l\<lparr>enabled := Some False\<rparr>)\<rparr>))
      else Inr cfg)"

text \<open>Lines 434 to 441 and the returned dictionary.\<close>

definition close_session ::
  "int option \<Rightarrow> int \<Rightarrow> int \<Rightarrow> bool \<Rightarrow> string \<Rightarrow> session_update option" where
  "close_session session_id event_count hw_devices_found performed summary =
     (if truthy_id session_id
      then Some \<lparr>u_events_found = event_count, u_hw_devices_found = hw_devices_found,
                 u_llm_analysis_performed = (if performed then 1 else 0), u_summary = summary\<rparr>
      else None)"

text \<open>
  The end of a run (lines 413 to 454): the guarded call of \<open>store_events\<close>, the
  closing of the session and the returned dictionary. \<open>run_monitor\<close> has no
  \<open>try\<close>: an exception that \<open>store_events\<close> lets out ends the run before the
  session is closed.
\<close>

definition persist_and_close ::
  "run_env \<Rightarrow> database \<Rightarrow> int \<Rightarrow> int \<Rightarrow> bool \<Rightarrow> string \<Rightarrow> string \<Rightarrow> string list list
     \<Rightarrow> matched_event list \<Rightarrow> run_outcome" where
  "persist_and_close env db event_count hw_devices_found performed llm_result summary calls events =
     (case guarded_store_events (new_session_id env) (map as_dict events) (event_now env)
             (dbenv env) db of
        (db', Some e) \<Rightarrow>
          \<lparr>returned = Inl e, analysis_calls = calls, event_objects = events, db_after = db',
           session_closed = None\<rparr>
      | (db', None) \<Rightarrow>
          \<lparr>returned =
             Inr \<lparr>r_event_count = event_count, r_hw_devices_found = hw_devices_found,
                  r_llm_analysis_performed = performed, r_llm_result = llm_result,
                  r_session_id = new_session_id env\<rparr>,
           analysis_calls = calls, event_objects = events, db_after = db',
           session_closed =
             close_session (new_session_id env) event_count hw_devices_found performed summary\<rparr>)"

text \<open>
  \<open>run_monitor\<close> with a configuration given, from the opening of the session to the
  returned dictionary.
\<close>

definition run_monitor :: "config \<Rightarrow> run_env \<Rightarrow> database \<Rightarrow> run_outcome" where
  "run_monitor cfg0 env db0 =
     (let session_id = new_session_id env; api_key = loaded_api_key env
      in case disable_llm_without_key api_key cfg0 of
           Inl e \<Rightarrow>
             \<lparr>returned = Inl e, analysis_calls = [], event_objects = [], db_after = db0,
              session_closed = None\<rparr>
         | Inr cfg \<Rightarrow>
             (let (com_devices, db1) =
                    collect_hardware session_id ''COM'' (found_com_ports env) (hw_now env) (dbenv env) db0;
                  (camera_devices, db2) =
                    (if is_windows (os env)
                     then collect_hardware session_id ''Camera'' (found_cameras env) (hw_now env) (dbenv env) db1
                     else ([], db1));
                  (usb_devices, db3) =
                    (if is_windows (os env)
                     then collect_hardware session_id ''USB'' (found_usb_devices env) (hw_now env) (dbenv env) db2
                     else ([], db2));
                  hw_devices_found =
                    int (length com_devices) + int (length camera_devices) + int (length usb_devices);
                  (event_count, event_log_strings, events) = analyze_event_logs cfg (os env);
                  llm_config = get_or (llm cfg) empty_llm_conf;
                  llm_check_threshold = get_or (check_threshold llm_config) 5;
                  llm_enabled = get_or (enabled llm_config) True;
                  session_summary =
                    sum_events @ str_of_int event_count @ sum_devices @
                    str_of_int hw_devices_found @ sfx_items
              in if event_count \<ge> llm_check_threshold \<and> llm_enabled then
                   (if truthy_str api_key then
                      (case analyze_logs_with_llm (net env) event_log_strings cfg api_key of
                         Inl e \<Rightarrow>
                           \<lparr>returned = Inl e, analysis_calls = [event_log_strings],
                            event_objects = events, db_after = db3, session_closed = None\<rparr>
                       | Inr llm_result \<Rightarrow>
                           (let flag = py_in marker_abnormal llm_result;
                                summary = (if flag then session_summary @ sum_abnormal
                                           else session_summary)
                            in persist_and_close env db3 event_count hw_devices_found True
                                 llm_result summary [event_log_strings]
                                 (back_fill llm_result flag events)))
                    else
                      \<lparr>returned =
                         Inr \<lparr>r_event_count = event_count, r_hw_devices_found = hw_devices_found,
                              r_llm_analysis_performed = False,
                              r_llm_result = msg_not_performed, r_session_id = session_id\<rparr>,
                       analysis_calls = [], event_objects = events, db_after = db3,
                       session_closed = close_session session_id event_count hw_devices_found
                                          False (session_summary @ sum_no_key)\<rparr>)
                 else
                   persist_and_close env db3 event_count hw_devices_found False
                     msg_not_performed
                     (session_summary @ (if \<not> llm_enabled then sum_disabled else sum_below))
                     [] events))"

subsection \<open>Concrete responses, configurations and environments\<close>

text \<open>A well-formed response body with the given content.\<close>

definition reply :: "string \<Rightarrow> json" where
  "reply c = JObj [(''choices'', JArr [JObj [(''message'', JObj [(''content'', JStr c)])]])]"

definition net_reply :: "string \<Rightarrow> llm_env" where
  "net_reply c = \<lparr>post = (\<lambda>r. Body (reply c)), str_of_json = (\<lambda>j. [])\<rparr>"

definition cfg_llm :: "string list \<Rightarrow> int \<Rightarrow> config" where
  "cfg_llm kws thr =
     \<lparr>event_log =
        Some (empty_evt_conf\<lparr>target_sources := Some [''Kernel-PnP''],
                             target_event_ids := Some [2102]\<rparr>),
      llm =
        Some \<lparr>api_url = Some ''https://api.example/v1'', model = Some ''m'',
              max_log_details_for_llm = None, abnormal_keywords = Some kws,
              check_threshold = Some thr, enabled = Some True\<rparr>\<rparr>"

definition env_run :: "int option \<Rightarrow> string \<Rightarrow> run_env" where
  "env_run sid c =
     \<lparr>loaded_api_key = Some ''key'', new_session_id = sid,
      found_com_ports = [device_com1], found_cameras = [], found_usb_devices = [],
      os = env_log [ev_pnp, ev_flagged, ev_other], net = net_reply c, dbenv = db_works,
      hw_now = ''2023-05-02T00:00:00'', event_now = clock\<rparr>"

text \<open>The threshold and the switch as \<open>run_monitor\<close> reads them.\<close>

definition conf_threshold :: "config \<Rightarrow> int" where
  "conf_threshold cfg = get_or (check_threshold (get_or (llm cfg) empty_llm_conf)) 5"

definition conf_enabled :: "config \<Rightarrow> bool" where
  "conf_enabled cfg = get_or (enabled (get_or (llm cfg) empty_llm_conf)) True"

section \<open>What a scan examines\<close>

text \<open>
  The control of the \<open>while\<close> loop does not depend on the criteria: each turn reads a
  batch and hands its first \<open>min(batch_size, max_events - total_read)\<close> records to the
  \<open>for\<close> loop. \<open>visited\<close> gives the records handed over, in the order of the scan,
  and whether the loop ends with an error of \<open>ReadEventLog\<close> other than "no more
  items" (18), which the outer \<open>except\<close> turns into \<open>(0, [], [])\<close>.
\<close>

function visited :: "int \<Rightarrow> (nat \<Rightarrow> read_result) \<Rightarrow> nat \<Rightarrow> int \<Rightarrow> event list \<times> bool" where
  "visited max_events rd k total_read =
     (if total_read < max_events then
        (case rd k of
           ReadRaises winerror \<Rightarrow> ([], winerror \<noteq> 18)
         | Events events \<Rightarrow>
             if events = [] then ([], False)
             else
               (let n = min (int (length events)) (max_events - total_read)
                in if total_read + n \<ge> max_events then (take (nat n) events, False)
                   else
                     (case visited max_events rd (Suc k) (total_read + n) of
                        (later, read_error) \<Rightarrow> (take (nat n) events @ later, read_error))))
      else ([], False))"
  by pat_completeness auto
termination
  by (relation "measure (\<lambda>(max_events, rd, k, total_read). nat (max_events - total_read))")
     (auto simp: min_def split: if_splits)

declare visited.simps [simp del]

text \<open>The settings of the scan as \<open>analyze_event_logs\<close> reads them.\<close>

definition conf_max_events :: "config \<Rightarrow> int" where
  "conf_max_events cfg = get_or (max_events_to_read (get_or (event_log cfg) empty_evt_conf)) 1000"

definition conf_log_name :: "config \<Rightarrow> string" where
  "conf_log_name cfg = get_or (log_name (get_or (event_log cfg) empty_evt_conf)) ''System''"

text \<open>
  A scan runs to its end when no read fails and no matching record fails in
  \<open>TimeGenerated.Format\<close>.
\<close>

definition scan_ok :: "string list \<Rightarrow> int list \<Rightarrow> event list \<times> bool \<Rightarrow> bool" where
  "scan_ok srcs ids v =
     (\<not> snd v \<and> (\<forall>ev\<in>set (fst v). match_found srcs ids ev \<longrightarrow> TimeGenerated ev \<noteq> None))"

section \<open>Properties of the event log scan\<close>

lemmas scan_examples =
  cfg_criteria_def env_log_def empty_evt_conf_def get_or_def ev_other_def ev_pnp_def
  ev_flagged_def

lemmas scan_unfold =
  analyze_event_logs_def scan_loop.simps process_event_def match_found_def masked_id_def

lemma match_found_iff:
  "match_found srcs ids ev \<longleftrightarrow>
     SourceName ev \<in> set srcs \<or> (EventID ev AND 0xFFFF) \<in> set ids"
  by (auto simp: match_found_def masked_id_def Let_def)

lemma process_event_count:
  "process_event srcs ids ev acc = Inr acc' \<Longrightarrow>
   fst acc' = fst acc + (if match_found srcs ids ev then 1 else 0)"
  by (auto simp: process_event_def split: prod.splits if_splits option.splits sum.splits)

lemma process_batch_count:
  "process_batch srcs ids evs acc = Inr acc' \<Longrightarrow>
   fst acc' = fst acc + int (length (filter (match_found srcs ids) evs))"
proof (induction evs arbitrary: acc)
  case Nil
  then show ?case by simp
next
  case (Cons ev evs)
  then obtain acc1 where s: "process_event srcs ids ev acc = Inr acc1"
    and r: "process_batch srcs ids evs acc1 = Inr acc'"
    by (auto split: sum.splits)
  from process_event_count[OF s] Cons.IH[OF r] show ?case by simp
qed

lemma process_event_consistent:
  "process_event srcs ids ev acc = Inr acc' \<Longrightarrow> consistent acc \<Longrightarrow> consistent acc'"
  by (auto simp: process_event_def consistent_def
      split: prod.splits if_splits option.splits sum.splits)

lemma process_batch_consistent:
  "process_batch srcs ids evs acc = Inr acc' \<Longrightarrow> consistent acc \<Longrightarrow> consistent acc'"
proof (induction evs arbitrary: acc)
  case Nil
  then show ?case by simp
next
  case (Cons ev evs)
  then obtain acc1 where s: "process_event srcs ids ev acc = Inr acc1"
    and r: "process_batch srcs ids evs acc1 = Inr acc'"
    by (auto split: sum.splits)
  from process_event_consistent[OF s Cons.prems(2)] Cons.IH[OF r] show ?case by simp
qed

text \<open>One turn of the \<open>while\<close> loop on a non-empty batch.\<close>

lemma scan_loop_step:
  "tot < mx \<Longrightarrow> rd k = Events evs \<Longrightarrow> evs \<noteq> [] \<Longrightarrow>
   scan_loop srcs ids mx rd k tot acc =
     (case process_batch srcs ids (take (nat (min (int (length evs)) (mx - tot))) evs) acc of
        Inl e \<Rightarrow> Inl e
      | Inr acc1 \<Rightarrow>
          if tot + min (int (length evs)) (mx - tot) \<ge> mx then Inr acc1
          else scan_loop srcs ids mx rd (Suc k) (tot + min (int (length evs)) (mx - tot)) acc1)"
  by (subst scan_loop.simps) (simp add: Let_def)

lemma scan_loop_consistent:
  "scan_loop srcs ids mx rd k tot acc = Inr acc' \<Longrightarrow> consistent acc \<Longrightarrow> consistent acc'"
proof (induction srcs ids mx rd k tot acc rule: scan_loop.induct)
  case (1 srcs ids mx rd k tot acc)
  show ?case
  proof (cases "tot < mx")
    case False
    with "1.prems" show ?thesis by (simp add: scan_loop.simps)
  next
    case True
    show ?thesis
    proof (cases "rd k")
      case (ReadRaises w)
      with True "1.prems" show ?thesis by (simp add: scan_loop.simps split: if_splits)
    next
      case (Events evs)
      show ?thesis
      proof (cases "evs = []")
        case True
        with \<open>tot < mx\<close> Events "1.prems" show ?thesis by (simp add: scan_loop.simps)
      next
        case False
        let ?n = "min (int (length evs)) (mx - tot)"
        from "1.prems"(1) obtain acc1 where
          b: "process_batch srcs ids (take (nat ?n) evs) acc = Inr acc1" and
          rest: "(if tot + ?n \<ge> mx then Inr acc1
                  else scan_loop srcs ids mx rd (Suc k) (tot + ?n) acc1) = Inr acc'"
          unfolding scan_loop_step[where rd=rd and k=k, OF True Events False]
          by (auto split: sum.splits)
        have c1: "consistent acc1" using process_batch_consistent[OF b "1.prems"(2)] .
        show ?thesis
        proof (cases "tot + ?n \<ge> mx")
          case True
          with rest c1 show ?thesis by simp
        next
          case nf: False
          from rest have r: "scan_loop srcs ids mx rd (Suc k) (tot + ?n) acc1 = Inr acc'"
            by (simp only: nf if_False)
          show ?thesis
            by (rule "1.IH"[OF True Events False refl refl b nf r c1])
        qed
      qed
    qed
  qed
qed

text \<open>
  Claim C1, as the code has it. When both criteria lists are empty (or absent), the scan
  reads nothing from the log and returns the triple \<open>(0, [], [])\<close>, whatever the log
  holds. The function has no error channel: the refusal is an error line in the
  application log, and the value returned is the one a scan that found no match returns.
\<close>

theorem empty_criteria_returns_zero_triple:
  "conf_sources cfg = [] \<Longrightarrow> conf_event_ids cfg = [] \<Longrightarrow>
   analyze_event_logs cfg env = (0, [], [])"
  by (simp add: analyze_event_logs_def conf_sources_def conf_event_ids_def Let_def)

theorem empty_criteria_returns_zero_triple_witness:
  "conf_sources (cfg_criteria [] []) = [] \<and> conf_event_ids (cfg_criteria [] []) = [] \<and>
   analyze_event_logs (cfg_criteria [] []) (env_log [ev_pnp, ev_other]) = (0, [], [])"
proof -
  have s: "conf_sources (cfg_criteria [] []) = []"
    by (simp add: conf_sources_def scan_examples)
  have i: "conf_event_ids (cfg_criteria [] []) = []"
    by (simp add: conf_event_ids_def scan_examples)
  from empty_criteria_returns_zero_triple[OF s i, of "env_log [ev_pnp, ev_other]"] s i
  show ?thesis by simp
qed

text \<open>
  Claim C1 as stated fails: with no criteria the scan returns a zero match count, and
  the triple is equal to the result of a real scan (criteria given, log opened and read)
  in which no record matched.
\<close>

theorem empty_criteria_zero_count_counterexample:
  "fst (analyze_event_logs (cfg_criteria [] []) (env_log [ev_other])) = 0 \<and>
   analyze_event_logs (cfg_criteria [] []) (env_log [ev_other]) =
     analyze_event_logs (cfg_criteria [''Kernel-PnP''] []) (env_log [ev_other])"
  by (simp add: scan_unfold scan_examples)

text \<open>
  Claim C2. Whatever the configuration and the log do, the match count that
  \<open>analyze_event_logs\<close> returns is the length of the returned detail lines and the
  length of the returned structured records. A record whose message cannot be formatted
  adds one entry to both; a run that ends in an exception returns \<open>(0, [], [])\<close>.
\<close>

theorem count_equals_both_lengths:
  "(case analyze_event_logs cfg env of
      (event_count, details, events) \<Rightarrow>
        event_count = int (length details) \<and> event_count = int (length events))"
proof -
  have "consistent (analyze_event_logs cfg env)"
    using scan_loop_consistent[of _ _ _ _ 0 0 "(0, [], [])"]
    by (auto simp: analyze_event_logs_def Let_def consistent_def split: sum.splits)
  then show ?thesis by (simp add: consistent_def)
qed

theorem count_equals_both_lengths_witness:
  "fst (analyze_event_logs (cfg_criteria [''Kernel-PnP''] [2102])
          (env_log [ev_pnp, ev_flagged, ev_other])) = 2 \<and>
   (case analyze_event_logs (cfg_criteria [''Kernel-PnP''] [2102])
           (env_log [ev_pnp, ev_flagged, ev_other]) of
      (event_count, details, events) \<Rightarrow>
        event_count = int (length details) \<and> event_count = int (length events))"
proof -
  have "fst (analyze_event_logs (cfg_criteria [''Kernel-PnP''] [2102])
          (env_log [ev_pnp, ev_flagged, ev_other])) = 2"
    by (simp add: scan_unfold scan_examples)
  with count_equals_both_lengths[of "cfg_criteria [''Kernel-PnP''] [2102]"
      "env_log [ev_pnp, ev_flagged, ev_other]"]
  show ?thesis by simp
qed

text \<open>A batch is processed to its end exactly when no matching record fails in \<open>Format\<close>.\<close>

lemma process_batch_completes_iff:
  "(\<exists>acc'. process_batch srcs ids evs acc = Inr acc') \<longleftrightarrow>
   (\<forall>ev\<in>set evs. match_found srcs ids ev \<longrightarrow> TimeGenerated ev \<noteq> None)"
proof (induction evs arbitrary: acc)
  case Nil
  have "\<exists>acc'. process_batch srcs ids [] acc = Inr acc'"
    by (rule exI[of _ acc]) simp
  moreover have "\<forall>ev\<in>set []. match_found srcs ids ev \<longrightarrow> TimeGenerated ev \<noteq> None"
    by simp
  ultimately show ?case by blast
next
  case (Cons ev evs)
  show ?case
  proof (cases "process_event srcs ids ev acc")
    case (Inl e)
    then have "match_found srcs ids ev \<and> TimeGenerated ev = None"
      by (auto simp: process_event_def split: prod.splits if_splits option.splits sum.splits)
    with Inl show ?thesis by simp
  next
    case (Inr acc1)
    then have "match_found srcs ids ev \<longrightarrow> TimeGenerated ev \<noteq> None"
      by (auto simp: process_event_def split: prod.splits if_splits option.splits sum.splits)
    with Inr Cons.IH[of acc1] show ?thesis by simp
  qed
qed

lemma visited_step:
  "tot < mx \<Longrightarrow> rd k = Events evs \<Longrightarrow> evs \<noteq> [] \<Longrightarrow>
   visited mx rd k tot =
     (if tot + min (int (length evs)) (mx - tot) \<ge> mx
      then (take (nat (min (int (length evs)) (mx - tot))) evs, False)
      else (case visited mx rd (Suc k) (tot + min (int (length evs)) (mx - tot)) of
              (later, read_error) \<Rightarrow>
                (take (nat (min (int (length evs)) (mx - tot))) evs @ later, read_error)))"
  by (subst visited.simps) (simp add: Let_def)

lemma scan_loop_visited:
  "(case scan_loop srcs ids mx rd k tot acc of
      Inl e \<Rightarrow> \<not> scan_ok srcs ids (visited mx rd k tot)
    | Inr acc' \<Rightarrow>
        scan_ok srcs ids (visited mx rd k tot) \<and>
        fst acc' = fst acc + int (length (filter (match_found srcs ids) (fst (visited mx rd k tot)))))"
proof (induction srcs ids mx rd k tot acc rule: scan_loop.induct)
  case (1 srcs ids mx rd k tot acc)
  show ?case
  proof (cases "tot < mx")
    case False
    then show ?thesis by (simp add: scan_loop.simps visited.simps scan_ok_def)
  next
    case True
    show ?thesis
    proof (cases "rd k")
      case (ReadRaises w)
      with True show ?thesis by (simp add: scan_loop.simps visited.simps scan_ok_def)
    next
      case (Events evs)
      show ?thesis
      proof (cases "evs = []")
        case True
        with \<open>tot < mx\<close> Events show ?thesis
          by (simp add: scan_loop.simps visited.simps scan_ok_def)
      next
        case False
        let ?n = "min (int (length evs)) (mx - tot)"
        let ?b = "take (nat ?n) evs"
        note sl = scan_loop_step[where rd=rd and k=k, OF True Events False]
        note vs = visited_step[where rd=rd and k=k, OF True Events False]
        show ?thesis
        proof (cases "process_batch srcs ids ?b acc")
          case (Inl e)
          then have bad: "\<not> (\<forall>ev\<in>set ?b. match_found srcs ids ev \<longrightarrow> TimeGenerated ev \<noteq> None)"
            using process_batch_completes_iff[of srcs ids ?b acc] by (metis sum.distinct(1))
          have "scan_loop srcs ids mx rd k tot acc = Inl e"
            by (simp only: sl Inl sum.case)
          moreover have "\<not> scan_ok srcs ids (visited mx rd k tot)"
          proof (cases "tot + ?n \<ge> mx")
            case True
            have "visited mx rd k tot = (?b, False)"
              by (simp only: vs True if_True)
            with bad show ?thesis by (simp add: scan_ok_def)
          next
            case nf: False
            obtain later err where v1: "visited mx rd (Suc k) (tot + ?n) = (later, err)"
              by (cases "visited mx rd (Suc k) (tot + ?n)") auto
            have "visited mx rd k tot = (?b @ later, err)"
              by (simp only: vs nf if_False v1 prod.case)
            with bad show ?thesis by (auto simp: scan_ok_def)
          qed
          ultimately show ?thesis by simp
        next
          case (Inr acc1)
          then have good: "\<forall>ev\<in>set ?b. match_found srcs ids ev \<longrightarrow> TimeGenerated ev \<noteq> None"
            using process_batch_completes_iff[of srcs ids ?b acc] by blast
          have cnt: "fst acc1 = fst acc + int (length (filter (match_found srcs ids) ?b))"
            by (rule process_batch_count[OF Inr])
          show ?thesis
          proof (cases "tot + ?n \<ge> mx")
            case True
            have "scan_loop srcs ids mx rd k tot acc = Inr acc1"
              by (simp only: sl Inr sum.case True if_True)
            moreover have "visited mx rd k tot = (?b, False)"
              by (simp only: vs True if_True)
            ultimately show ?thesis using good cnt by (simp add: scan_ok_def)
          next
            case nf: False
            have s: "scan_loop srcs ids mx rd k tot acc =
                scan_loop srcs ids mx rd (Suc k) (tot + ?n) acc1"
              by (simp only: sl Inr sum.case nf if_False)
            obtain later err where v1: "visited mx rd (Suc k) (tot + ?n) = (later, err)"
              by (cases "visited mx rd (Suc k) (tot + ?n)") auto
            have v: "visited mx rd k tot = (?b @ later, err)"
              by (simp only: vs nf if_False v1 prod.case)
            note ih = "1.IH"[OF True Events False refl refl Inr nf]
            show ?thesis
              using ih good cnt
              by (auto simp: s v v1 scan_ok_def split: sum.splits)
          qed
        qed
      qed
    qed
  qed
qed

text \<open>
  Claim C3. The count that \<open>analyze_event_logs\<close> returns is the number of examined
  records whose source name is in the configured source list or whose raw event ID
  masked with 0xFFFF is in the configured event-ID list: either membership suffices.
  This holds for every scan that runs to its end (the host is Windows, a criterion is
  configured, the log opens, no read fails, no matching record fails in
  \<open>TimeGenerated.Format\<close>); every other scan returns 0.
\<close>

theorem count_is_number_of_matching_records:
  "fst (analyze_event_logs cfg env) =
     (let (records, read_error) = visited (conf_max_events cfg) (ReadEventLog env) 0 0;
          matching =
            filter (\<lambda>ev. SourceName ev \<in> set (conf_sources cfg) \<or>
                         (EventID ev AND 0xFFFF) \<in> set (conf_event_ids cfg)) records
      in if is_windows env \<and> (conf_sources cfg \<noteq> [] \<or> conf_event_ids cfg \<noteq> []) \<and>
            OpenEventLog env (conf_log_name cfg) \<and> \<not> read_error \<and>
            (\<forall>ev\<in>set matching. TimeGenerated ev \<noteq> None)
         then int (length matching) else 0)"
proof -
  let ?srcs = "conf_sources cfg" and ?ids = "conf_event_ids cfg"
  let ?v = "visited (conf_max_events cfg) (ReadEventLog env) 0 0"
  have eq: "match_found ?srcs ?ids =
      (\<lambda>ev. SourceName ev \<in> set ?srcs \<or> (EventID ev AND 0xFFFF) \<in> set ?ids)"
    by (rule ext) (rule match_found_iff)
  obtain records read_error where v: "?v = (records, read_error)"
    by (cases ?v) auto
  have ok: "scan_ok ?srcs ?ids ?v \<longleftrightarrow>
      \<not> read_error \<and>
      (\<forall>ev\<in>set (filter (\<lambda>ev. SourceName ev \<in> set ?srcs \<or>
            (EventID ev AND 0xFFFF) \<in> set ?ids) records). TimeGenerated ev \<noteq> None)"
    by (auto simp: scan_ok_def v eq)
  note sl = scan_loop_visited[of ?srcs ?ids "conf_max_events cfg" "ReadEventLog env" 0 0
      "(0, [], [])"]
  show ?thesis
  proof (cases "is_windows env \<and> (?srcs \<noteq> [] \<or> ?ids \<noteq> []) \<and>
      OpenEventLog env (conf_log_name cfg)")
    case False
    then show ?thesis
      by (auto simp: analyze_event_logs_def conf_sources_def conf_event_ids_def
          conf_log_name_def Let_def v)
  next
    case True
    then have a: "analyze_event_logs cfg env =
        (case scan_loop ?srcs ?ids (conf_max_events cfg) (ReadEventLog env) 0 0 (0, [], []) of
           Inl e \<Rightarrow> (0, [], []) | Inr r \<Rightarrow> r)"
      by (auto simp: analyze_event_logs_def conf_sources_def conf_event_ids_def
          conf_log_name_def conf_max_events_def Let_def)
    show ?thesis
    proof (cases "scan_loop ?srcs ?ids (conf_max_events cfg) (ReadEventLog env) 0 0 (0, [], [])")
      case (Inl e)
      with sl have "\<not> scan_ok ?srcs ?ids ?v" by simp
      with ok Inl a True show ?thesis by (auto simp: v Let_def)
    next
      case (Inr r)
      with sl have g: "scan_ok ?srcs ?ids ?v"
        and c: "fst r = int (length (filter (match_found ?srcs ?ids) (fst ?v)))"
        by simp_all
      from g ok have "\<not> read_error \<and>
        (\<forall>ev\<in>set (filter (\<lambda>ev. SourceName ev \<in> set ?srcs \<or>
            (EventID ev AND 0xFFFF) \<in> set ?ids) records). TimeGenerated ev \<noteq> None)"
        by simp
      with c Inr a True show ?thesis by (simp add: v eq Let_def)
    qed
  qed
qed

theorem count_is_number_of_matching_records_witness:
  "visited (conf_max_events (cfg_criteria [''Kernel-PnP''] [2102]))
     (ReadEventLog (env_log [ev_pnp, ev_flagged, ev_other])) 0 0 =
     ([ev_pnp, ev_flagged, ev_other], False) \<and>
   filter (\<lambda>ev. SourceName ev \<in> set (conf_sources (cfg_criteria [''Kernel-PnP''] [2102])) \<or>
                (EventID ev AND 0xFFFF) \<in> set (conf_event_ids (cfg_criteria [''Kernel-PnP''] [2102])))
     [ev_pnp, ev_flagged, ev_other] = [ev_pnp, ev_flagged] \<and>
   fst (analyze_event_logs (cfg_criteria [''Kernel-PnP''] [2102])
          (env_log [ev_pnp, ev_flagged, ev_other])) = 2"
proof -
  have v: "visited (conf_max_events (cfg_criteria [''Kernel-PnP''] [2102]))
     (ReadEventLog (env_log [ev_pnp, ev_flagged, ev_other])) 0 0 =
     ([ev_pnp, ev_flagged, ev_other], False)"
    by (simp add: visited.simps conf_max_events_def cfg_criteria_def env_log_def
        empty_evt_conf_def get_or_def)
  have c: "conf_sources (cfg_criteria [''Kernel-PnP''] [2102]) = [''Kernel-PnP'']"
    "conf_event_ids (cfg_criteria [''Kernel-PnP''] [2102]) = [2102]"
    by (simp_all add: conf_sources_def conf_event_ids_def cfg_criteria_def empty_evt_conf_def
        get_or_def)
  have f: "filter (\<lambda>ev. SourceName ev \<in> set [''Kernel-PnP''] \<or>
                (EventID ev AND 0xFFFF) \<in> set [2102])
     [ev_pnp, ev_flagged, ev_other] = [ev_pnp, ev_flagged]"
    by (simp add: ev_pnp_def ev_flagged_def ev_other_def)
  have e: "is_windows (env_log [ev_pnp, ev_flagged, ev_other])"
    "OpenEventLog (env_log [ev_pnp, ev_flagged, ev_other])
       (conf_log_name (cfg_criteria [''Kernel-PnP''] [2102]))"
    "TimeGenerated ev_pnp \<noteq> None" "TimeGenerated ev_flagged \<noteq> None"
    by (simp_all add: env_log_def ev_pnp_def ev_flagged_def)
  have "fst (analyze_event_logs (cfg_criteria [''Kernel-PnP''] [2102])
          (env_log [ev_pnp, ev_flagged, ev_other])) =
      (if is_windows (env_log [ev_pnp, ev_flagged, ev_other]) \<and>
          ([''Kernel-PnP''] \<noteq> [] \<or> [2102 :: int] \<noteq> []) \<and>
          OpenEventLog (env_log [ev_pnp, ev_flagged, ev_other])
            (conf_log_name (cfg_criteria [''Kernel-PnP''] [2102])) \<and>
          \<not> False \<and> (\<forall>ev\<in>set [ev_pnp, ev_flagged]. TimeGenerated ev \<noteq> None)
       then int (length [ev_pnp, ev_flagged]) else 0)"
    using count_is_number_of_matching_records[of "cfg_criteria [''Kernel-PnP''] [2102]"
      "env_log [ev_pnp, ev_flagged, ev_other]"]
    unfolding v c Let_def prod.case f .
  also have "\<dots> = 2"
    using e by simp
  finally have "fst (analyze_event_logs (cfg_criteria [''Kernel-PnP''] [2102])
          (env_log [ev_pnp, ev_flagged, ev_other])) = 2" .
  with v f show ?thesis unfolding c by blast
qed

section \<open>Properties of the persistence functions\<close>








section \<open>Properties of the summarizer\<close>

lemma parse_log_garbage: "parse_log line_garbage = None"
  by (simp add: parse_log_def time_at_def lit_time_def line_garbage_def)

text \<open>A line in which the time pattern finds nothing leaves no entry.\<close>

lemma parse_logs_drops_unmatched:
  "re_search time_at log = None \<Longrightarrow> parse_logs (log # logs) = parse_logs logs"
  by (simp add: parse_log_def)

lemma parse_log_matched:
  "re_search time_at log = Some t \<Longrightarrow> \<exists>p. parse_log log = Some p"
  by (simp add: parse_log_def Let_def split: option.splits)

lemma time_of_line_good: "re_search time_at line_good = Some ''2023-05-01 12:34:56''"
  by (simp add: time_at_def lit_time_def line_good_def detail_line_def lbl_time_def
      lbl_source_def is_digit_def)

text \<open>
  Claim C4 fails on the code. The window of the two lines below has two lines, one of
  them without a time; the parsed list has one entry, and the digest is the digest of
  the first line alone, so the total it reports is 1. A window in which no line holds a
  time gives no digest at all: \<open>IndexError\<close>.
\<close>

theorem unmatched_line_is_dropped:
  "length (slice_to [line_good, line_garbage] 20) = 2 \<and>
   length (parse_logs (slice_to [line_good, line_garbage] 20)) = 1 \<and>
   preprocess_logs [line_good, line_garbage] 20 = preprocess_logs [line_good] 20 \<and>
   preprocess_logs [line_garbage] 20 = Inl IndexError"
proof -
  have g: "parse_logs [line_good, line_garbage] = parse_logs [line_good]"
    by (simp add: parse_log_garbage split: option.splits)
  have 1: "length (slice_to [line_good, line_garbage] 20) = 2"
    by (simp add: slice_to_def)
  from parse_log_matched[OF time_of_line_good] obtain p where p: "parse_log line_good = Some p"
    by blast
  have 2: "length (parse_logs (slice_to [line_good, line_garbage] 20)) = 1"
    by (simp add: slice_to_def parse_log_garbage p)
  have 3: "preprocess_logs [line_good, line_garbage] 20 = preprocess_logs [line_good] 20"
    using g by (simp add: preprocess_logs_def slice_to_def del: parse_logs.simps)
  have 4: "preprocess_logs [line_garbage] 20 = Inl IndexError"
    by (simp add: preprocess_logs_def slice_to_def parse_log_garbage)
  from 1 2 3 4 show ?thesis by blast
qed

text \<open>
  Claim C5. The lines of a group of at most five entries are its header, all its
  entries and an empty line. The lines of a group of more than five entries are its
  header, the note that gives the total and says that the first 3 and the last 2 are
  shown, these five entries, and an empty line.
\<close>

theorem group_shows_all_or_head_and_tail:
  "(length logs \<le> 5 \<longrightarrow>
      group_lines (key, logs) =
        [''## '' @ key @ '' - '' @ str_of_int (int (length logs)) @ sfx_cases] @
        map entry_line logs @ [[]]) \<and>
   (length logs > 5 \<longrightarrow>
      group_lines (key, logs) =
        [''## '' @ key @ '' - '' @ str_of_int (int (length logs)) @ sfx_cases,
         note_total @ str_of_int (int (length logs)) @ note_truncated] @
        map entry_line (take 3 logs @ drop (length logs - 2) logs) @ [[]] \<and>
      length (take 3 logs @ drop (length logs - 2) logs) = 5)"
  by (auto simp: group_lines_def display_logs_def truncation_note_def)

theorem group_shows_all_or_head_and_tail_witness:
  "group_lines (''SrcA (ID: 1)'', six_logs) =
     [''## SrcA (ID: 1) - 6'' @ sfx_cases,
      note_total @ ''6'' @ note_truncated,
      ''[2023-05-01 12:34:01] line 01'', ''[2023-05-01 12:34:02] line 02'',
      ''[2023-05-01 12:34:03] line 03'', ''[2023-05-01 12:34:05] line 05'',
      ''[2023-05-01 12:34:06] line 06'', []] \<and>
   group_lines (''SrcB (ID: 2)'', two_logs) =
     [''## SrcB (ID: 2) - 2'' @ sfx_cases,
      ''[2023-05-01 12:34:07] line 07'', ''[2023-05-01 12:34:08] line 08'', []]"
proof -
  have 6: "length six_logs > 5" by (simp add: six_logs_def)
  have 2: "length two_logs \<le> 5" by (simp add: two_logs_def)
  from group_shows_all_or_head_and_tail[of six_logs "''SrcA (ID: 1)''"] 6
  have a: "group_lines (''SrcA (ID: 1)'', six_logs) =
        [''## '' @ ''SrcA (ID: 1)'' @ '' - '' @ str_of_int (int (length six_logs)) @ sfx_cases,
         note_total @ str_of_int (int (length six_logs)) @ note_truncated] @
        map entry_line (take 3 six_logs @ drop (length six_logs - 2) six_logs) @ [[]]"
    by blast
  from group_shows_all_or_head_and_tail[of two_logs "''SrcB (ID: 2)''"] 2
  have b: "group_lines (''SrcB (ID: 2)'', two_logs) =
        [''## '' @ ''SrcB (ID: 2)'' @ '' - '' @ str_of_int (int (length two_logs)) @ sfx_cases] @
        map entry_line two_logs @ [[]]"
    by blast
  show ?thesis
    unfolding a b
    by (simp add: six_logs_def two_logs_def sample_log_def entry_line_def str_of_int_def
        digits_of.simps)
qed

section \<open>Properties of the analysis client and of the orchestrator\<close>

text \<open>The scan of the concrete log: two matches, the first of them \<open>line_good\<close>.\<close>

lemma scan_of_three:
  "analyze_event_logs (cfg_llm kws thr) (env_log [ev_pnp, ev_flagged, ev_other]) =
     (2,
      [line_good,
       detail_line ''2023-05-01 12:35:10'' ''Disk'' 2102
         (''('' @ lbl_format_error @ ''no message file'' @ '')'')],
      [new_record ''2023-05-01T12:34:56'' ''Kernel-PnP'' 2102 ''device removed'',
       new_record ''2023-05-01T12:35:10'' ''Disk'' 2102 (lbl_format_error @ ''no message file'')])"
  by (simp add: scan_unfold scan_examples cfg_llm_def strip_def is_space_def line_good_def)

text \<open>A digest starts with the header, so it is neither empty nor the "no data" text.\<close>

lemma digest_shape:
  "preprocess_logs log_details max_logs = Inr s \<Longrightarrow> log_details \<noteq> [] \<Longrightarrow>
   \<exists>t. s = CHR ''#'' # t"
  by (auto simp: preprocess_logs_def Let_def hdr_summary_def split: if_splits)

lemma digest_exists:
  assumes p: "parse_log l = Some p"
  shows "\<exists>t. preprocess_logs (l # ls) 20 = Inr (CHR ''#'' # t)"
proof -
  have "slice_to (l # ls) 20 = l # take 19 ls"
    by (simp add: slice_to_def take_Cons')
  then have "sort_key p_timestamp (parse_logs (slice_to (l # ls) 20)) \<noteq> []"
    using p by simp
  then obtain s where "preprocess_logs (l # ls) 20 = Inr s"
    by (simp add: preprocess_logs_def Let_def)
  with digest_shape[of "l # ls" 20 s] show ?thesis by auto
qed

lemma call_model_reply:
  "c \<noteq> [] \<Longrightarrow> call_model (net_reply c) kws req =
     (if is_abnormal kws c then pfx_abnormal @ c else pfx_normal @ c)"
  by (simp add: call_model_def net_reply_def reply_def read_response_def classify_def)

lemma analyze_reply:
  assumes "parse_log l = Some p" "c \<noteq> []"
  shows "analyze_logs_with_llm (net_reply c) (l # ls) (cfg_llm kws thr) (Some ''key'') =
     Inr (if is_abnormal kws c then pfx_abnormal @ c else pfx_normal @ c)"
proof -
  from digest_exists[OF assms(1), of ls] obtain t where
    d: "preprocess_logs (l # ls) 20 = Inr (CHR ''#'' # t)" by blast
  have ne: "CHR ''#'' # t \<noteq> msg_no_logs" by (simp add: msg_no_logs_def)
  show ?thesis
    using d ne assms(2)
    by (simp add: analyze_logs_with_llm_def truthy_str_def cfg_llm_def get_or_def
        call_model_reply Let_def)
qed

text \<open>
  Once the digest is there, the client returns a string whatever the network and the
  response are: the \<open>try\<close> lets nothing out.
\<close>

lemma analyze_returns_after_digest:
  "preprocess_logs log_details
     (get_or (max_log_details_for_llm (get_or (llm cfg) empty_llm_conf)) 20) = Inr s \<Longrightarrow>
   \<exists>v. analyze_logs_with_llm env log_details cfg api_key = Inr v"
  by (simp add: analyze_logs_with_llm_def Let_def)

lemma disable_keeps: "truthy_str k \<Longrightarrow> disable_llm_without_key k cfg = Inr cfg"
  by (auto simp: disable_llm_without_key_def truthy_str_def split: option.splits)

text \<open>The list \<open>event_objects\<close> at the end of a run that has a key.\<close>

lemma run_event_objects:
  "truthy_str (loaded_api_key env) \<Longrightarrow>
   event_objects (run_monitor cfg env db) =
     (case analyze_event_logs cfg (os env) of
        (event_count, details, events) \<Rightarrow>
          if conf_threshold cfg \<le> event_count \<and> conf_enabled cfg then
            (case analyze_logs_with_llm (net env) details cfg (loaded_api_key env) of
               Inl e \<Rightarrow> events
             | Inr verdict \<Rightarrow> back_fill verdict (py_in marker_abnormal verdict) events)
          else events)"
  by (auto simp: run_monitor_def persist_and_close_def disable_keeps conf_threshold_def
      conf_enabled_def Let_def split: prod.splits sum.splits option.splits)

lemma env_run_fields:
  "os (env_run sid c) = env_log [ev_pnp, ev_flagged, ev_other]"
  "net (env_run sid c) = net_reply c"
  "loaded_api_key (env_run sid c) = Some ''key''"
  "new_session_id (env_run sid c) = sid"
  "truthy_str (loaded_api_key (env_run sid c))"
  by (simp_all add: env_run_def truthy_str_def)

lemma cfg_llm_fields:
  "conf_threshold (cfg_llm kws thr) = thr"
  "conf_enabled (cfg_llm kws thr)"
  by (simp_all add: conf_threshold_def conf_enabled_def cfg_llm_def get_or_def)

text \<open>
  Claim C6 fails on the code. The configured keyword is "Disconnect" and the response
  "Disconnect detected" holds it, yet the run marks both of its records as not abnormal:
  line 199 lowers the response and compares it with the keyword as written. A second
  slip goes the other way: \<open>run_monitor\<close> looks for the marker text anywhere in the
  verdict, so a response that holds the marker's words and no keyword is given the
  "normal" prefix and still marks the records abnormal.
\<close>

theorem keyword_with_capital_is_missed:
  "py_in ''Disconnect'' ''Disconnect detected'' \<and>
   map abnormal (event_objects (run_monitor (cfg_llm [''Disconnect''] 2)
       (env_run (Some 1) ''Disconnect detected'') db_empty)) = [False, False] \<and>
   \<not> is_abnormal [''disconnect''] marker_abnormal \<and>
   map abnormal (event_objects (run_monitor (cfg_llm [''disconnect''] 2)
       (env_run (Some 1) marker_abnormal) db_empty)) = [True, True]"
proof -
  from parse_log_matched[OF time_of_line_good] obtain p where p: "parse_log line_good = Some p"
    by blast
  have k: "\<not> is_abnormal [''Disconnect''] ''Disconnect detected''"
    by (simp add: is_abnormal_def lower_def lower_char_def)
  have m: "\<not> py_in marker_abnormal (pfx_normal @ ''Disconnect detected'')"
    by (simp add: marker_abnormal_def pfx_normal_def)
  have 1: "py_in ''Disconnect'' ''Disconnect detected''"
    by simp
  have 2: "map abnormal (event_objects (run_monitor (cfg_llm [''Disconnect''] 2)
       (env_run (Some 1) ''Disconnect detected'') db_empty)) = [False, False]"
    using k m
    by (simp add: run_event_objects[OF env_run_fields(5)] env_run_fields(1-4) cfg_llm_fields
        scan_of_three analyze_reply[OF p] back_fill_def new_record_def)
  have k': "\<not> is_abnormal [''disconnect''] marker_abnormal"
    by (simp add: is_abnormal_def lower_def lower_char_def marker_abnormal_def)
  have m': "py_in marker_abnormal (pfx_normal @ marker_abnormal)"
    by (simp add: marker_abnormal_def pfx_normal_def)
  have ne: "marker_abnormal \<noteq> []"
    by (simp add: marker_abnormal_def)
  have 3: "map abnormal (event_objects (run_monitor (cfg_llm [''disconnect''] 2)
       (env_run (Some 1) marker_abnormal) db_empty)) = [True, True]"
    using k' m' ne
    by (simp add: run_event_objects[OF env_run_fields(5)] env_run_fields(1-4) cfg_llm_fields
        scan_of_three analyze_reply[OF p] back_fill_def new_record_def)
  from 1 2 k' 3 show ?thesis by blast
qed

text \<open>The exception that a store lets out does not depend on the content of the tables.\<close>

lemma store_error_any_db:
  "snd (guarded_store_events sid evs now env db) = snd (guarded_store_events sid evs now env db')"
  by (simp add: guarded_store_events_def store_events_def
      split: sum.splits db_failure.splits prod.splits)

lemma persist_fields:
  "analysis_calls (persist_and_close env db' c h perf res summ calls evs) = calls"
  "event_objects (persist_and_close env db' c h perf res summ calls evs) = evs"
  by (simp_all add: persist_and_close_def split: prod.splits option.splits)

lemma persist_outcome:
  "map_sum id (\<lambda>res. (r_llm_analysis_performed res, r_llm_result res))
     (returned (persist_and_close env db' c h perf res summ calls evs)) =
   (case snd (guarded_store_events (new_session_id env) (map as_dict evs) (event_now env)
           (dbenv env) db) of
      Some e \<Rightarrow> Inl e
    | None \<Rightarrow> Inr (perf, res))"
proof -
  obtain d x where g: "guarded_store_events (new_session_id env) (map as_dict evs) (event_now env)
           (dbenv env) db' = (d, x)"
    by (cases "guarded_store_events (new_session_id env) (map as_dict evs) (event_now env)
           (dbenv env) db'") auto
  have "snd (guarded_store_events (new_session_id env) (map as_dict evs) (event_now env)
           (dbenv env) db) = x"
    using store_error_any_db[of "new_session_id env" "map as_dict evs" "event_now env"
        "dbenv env" db db'] g by simp
  then show ?thesis
    by (simp add: persist_and_close_def g split: option.splits)
qed

lemma run_escalated:
  assumes "truthy_str (loaded_api_key env)" "conf_enabled cfg"
    "analyze_event_logs cfg (os env) = (event_count, details, events)"
    "conf_threshold cfg \<le> event_count"
  shows "analysis_calls (run_monitor cfg env db) = [details]"
    "analyze_logs_with_llm (net env) details cfg (loaded_api_key env) = Inl e \<Longrightarrow>
       returned (run_monitor cfg env db) = Inl e \<and> event_objects (run_monitor cfg env db) = events"
    "analyze_logs_with_llm (net env) details cfg (loaded_api_key env) = Inr verdict \<Longrightarrow>
       event_objects (run_monitor cfg env db) =
         back_fill verdict (py_in marker_abnormal verdict) events \<and>
       map_sum id (\<lambda>res. (r_llm_analysis_performed res, r_llm_result res))
           (returned (run_monitor cfg env db)) =
         (case snd (guarded_store_events (new_session_id env)
                 (map as_dict (back_fill verdict (py_in marker_abnormal verdict) events))
                 (event_now env) (dbenv env) db) of
            Some e \<Rightarrow> Inl e
          | None \<Rightarrow> Inr (True, verdict))"
proof -
  have en: "get_or (enabled (get_or (llm cfg) empty_llm_conf)) True"
    using assms(2) by (simp add: conf_enabled_def)
  have th: "get_or (check_threshold (get_or (llm cfg) empty_llm_conf)) 5 \<le> event_count"
    using assms(4) by (simp add: conf_threshold_def)
  show "analysis_calls (run_monitor cfg env db) = [details]"
    using assms(1,3) en th
    by (simp add: run_monitor_def persist_fields disable_keeps Let_def
        split: prod.splits sum.splits)
  show "analyze_logs_with_llm (net env) details cfg (loaded_api_key env) = Inl e \<Longrightarrow>
       returned (run_monitor cfg env db) = Inl e \<and> event_objects (run_monitor cfg env db) = events"
    using assms(1,3) en th
    by (simp add: run_monitor_def disable_keeps Let_def split: prod.splits)
  show "analyze_logs_with_llm (net env) details cfg (loaded_api_key env) = Inr verdict \<Longrightarrow>
       event_objects (run_monitor cfg env db) =
         back_fill verdict (py_in marker_abnormal verdict) events \<and>
       map_sum id (\<lambda>res. (r_llm_analysis_performed res, r_llm_result res))
           (returned (run_monitor cfg env db)) =
         (case snd (guarded_store_events (new_session_id env)
                 (map as_dict (back_fill verdict (py_in marker_abnormal verdict) events))
                 (event_now env) (dbenv env) db) of
            Some e \<Rightarrow> Inl e
          | None \<Rightarrow> Inr (True, verdict))"
    using assms(1,3) en th
    by (simp add: run_monitor_def persist_fields persist_outcome[where db=db] disable_keeps
        Let_def split: prod.splits)
qed

lemma run_not_escalated:
  assumes "truthy_str (loaded_api_key env)"
    "analyze_event_logs cfg (os env) = (event_count, details, events)"
    "event_count < conf_threshold cfg"
  shows "analysis_calls (run_monitor cfg env db) = []"
    "event_objects (run_monitor cfg env db) = events"
    "map_sum id (\<lambda>res. (r_llm_analysis_performed res, r_llm_result res))
           (returned (run_monitor cfg env db)) =
         (case snd (guarded_store_events (new_session_id env) (map as_dict events)
                 (event_now env) (dbenv env) db) of
            Some e \<Rightarrow> Inl e
          | None \<Rightarrow> Inr (False, msg_not_performed))"
proof -
  have th: "\<not> get_or (check_threshold (get_or (llm cfg) empty_llm_conf)) 5 \<le> event_count"
    using assms(3) by (simp add: conf_threshold_def)
  show "analysis_calls (run_monitor cfg env db) = []"
    using assms(1,2) th
    by (simp add: run_monitor_def persist_fields disable_keeps Let_def split: prod.splits)
  show "event_objects (run_monitor cfg env db) = events"
    using assms(1,2) th
    by (simp add: run_monitor_def persist_fields disable_keeps Let_def split: prod.splits)
  show "map_sum id (\<lambda>res. (r_llm_analysis_performed res, r_llm_result res))
           (returned (run_monitor cfg env db)) =
         (case snd (guarded_store_events (new_session_id env) (map as_dict events)
                 (event_now env) (dbenv env) db) of
            Some e \<Rightarrow> Inl e
          | None \<Rightarrow> Inr (False, msg_not_performed))"
    using assms(1,2) th
    by (simp add: run_monitor_def persist_outcome[where db=db] disable_keeps Let_def
        split: prod.splits)
qed

text \<open>
  Claim C7. With the feature enabled and a key loaded, the analysis client is called
  exactly when the match count is at least the threshold. In that case it is called
  once, on the detail lines of the scan; what it raises ends the run, and the verdict it
  returns is written into every record and returned with
  \<open>llm_analysis_performed = True\<close>. Below the threshold it is not called: the records
  stay as the scan made them and the run returns \<open>llm_analysis_performed = False\<close>
  with the text "not performed". (A run returns its dictionary unless the final
  \<open>store_events\<close> lets an exception out.) So a count equal to the threshold
  escalates and a count one below does not.
\<close>

theorem escalation_iff_threshold_reached:
  assumes "conf_enabled cfg" and "truthy_str (loaded_api_key env)"
  shows
  "(let (event_count, details, events) = analyze_event_logs cfg (os env);
        r = run_monitor cfg env db;
        outcome = map_sum id (\<lambda>res. (r_llm_analysis_performed res, r_llm_result res)) (returned r)
    in (conf_threshold cfg \<le> event_count \<longrightarrow>
          analysis_calls r = [details] \<and>
          (case analyze_logs_with_llm (net env) details cfg (loaded_api_key env) of
             Inl e \<Rightarrow> returned r = Inl e \<and> event_objects r = events
           | Inr verdict \<Rightarrow>
               event_objects r = back_fill verdict (py_in marker_abnormal verdict) events \<and>
               outcome =
                 (case snd (guarded_store_events (new_session_id env)
                         (map as_dict (back_fill verdict (py_in marker_abnormal verdict) events))
                         (event_now env) (dbenv env) db) of
                    Some e \<Rightarrow> Inl e
                  | None \<Rightarrow> Inr (True, verdict)))) \<and>
       (event_count < conf_threshold cfg \<longrightarrow>
          analysis_calls r = [] \<and> event_objects r = events \<and>
          outcome =
            (case snd (guarded_store_events (new_session_id env) (map as_dict events)
                    (event_now env) (dbenv env) db) of
               Some e \<Rightarrow> Inl e
             | None \<Rightarrow> Inr (False, msg_not_performed))))"
proof -
  obtain event_count details events where
    s: "analyze_event_logs cfg (os env) = (event_count, details, events)"
    by (cases "analyze_event_logs cfg (os env)") auto
  show ?thesis
  proof (cases "conf_threshold cfg \<le> event_count")
    case True
    note esc = run_escalated[OF assms(2) assms(1) s True, where db=db]
    show ?thesis
    proof (cases "analyze_logs_with_llm (net env) details cfg (loaded_api_key env)")
      case (Inl e)
      with esc(1) esc(2)[OF Inl] True show ?thesis
        by (simp add: s Let_def)
    next
      case (Inr verdict)
      with esc(1) esc(3)[OF Inr] True show ?thesis
        by (simp add: s Let_def)
    qed
  next
    case False
    then have lt: "event_count < conf_threshold cfg" by simp
    from run_not_escalated[OF assms(2) s lt, where db=db] False show ?thesis
      by (simp add: s Let_def)
  qed
qed

theorem escalation_iff_threshold_reached_witness:
  "fst (analyze_event_logs (cfg_llm [] 2) (os (env_run None ''x''))) = 2 \<and>
   analysis_calls (run_monitor (cfg_llm [] 2) (env_run None ''x'') db_empty) =
     [fst (snd (analyze_event_logs (cfg_llm [] 2) (os (env_run None ''x''))))] \<and>
   map_sum id (\<lambda>res. (r_llm_analysis_performed res, r_llm_result res))
     (returned (run_monitor (cfg_llm [] 2) (env_run None ''x'') db_empty)) =
     Inr (True, pfx_normal @ ''x'') \<and>
   analysis_calls (run_monitor (cfg_llm [] 3) (env_run None ''x'') db_empty) = [] \<and>
   map_sum id (\<lambda>res. (r_llm_analysis_performed res, r_llm_result res))
     (returned (run_monitor (cfg_llm [] 3) (env_run None ''x'') db_empty)) =
     Inr (False, msg_not_performed)"
proof -
  from parse_log_matched[OF time_of_line_good] obtain p where p: "parse_log line_good = Some p"
    by blast
  have n: "\<not> is_abnormal [] ''x''" by (simp add: is_abnormal_def)
  show ?thesis
    using escalation_iff_threshold_reached[OF cfg_llm_fields(2) env_run_fields(5),
        of "[]" 2 None "''x''" db_empty]
      escalation_iff_threshold_reached[OF cfg_llm_fields(2) env_run_fields(5),
        of "[]" 3 None "''x''" db_empty] n
    by (simp add: env_run_fields cfg_llm_fields scan_of_three analyze_reply[OF p]
        guarded_store_events_def truthy_id_def Let_def)
qed




text \<open>
  Claim C9 fails on the code. \<open>preprocess_logs\<close> is called before the \<open>try\<close>; for a
  list of lines in which no line holds a time it raises \<open>IndexError\<close>, and the
  exception leaves \<open>analyze_logs_with_llm\<close>, whatever the network would have done.
\<close>

theorem index_error_escapes_client:
  "analyze_logs_with_llm env [line_garbage] (cfg_llm kws thr) (Some ''key'') = Inl IndexError"
  by (simp add: analyze_logs_with_llm_def truthy_str_def cfg_llm_def get_or_def
      preprocess_logs_def slice_to_def parse_log_garbage)

theorem index_error_escapes_client_witness:
  "analyze_logs_with_llm (net_reply ''all is well'') [''garbage''] (cfg_llm [] 2) (Some ''key'') =
     Inl IndexError"
  using index_error_escapes_client[of "net_reply ''all is well''" "[]" 2]
  by (simp add: line_garbage_def)

end
